theory Spec2Isabelle
  imports Complex_Main
begin

section \<open>JavaScript values\<close>

text \<open>
  The values that \<^verbatim>\<open>JSON.parse\<close> and the HTTP client hand to the service, plus
  \<^verbatim>\<open>undefined\<close>. A JSON number is modelled by the rational value of its literal (the
  rounding to an IEEE double is not modelled); a string is a list of 8-bit code units; an
  object is an association list read with \<open>map_of\<close>.
\<close>

datatype jsval =
    JUndefined
  | JNull
  | JBool bool
  | JNum rat
  | JStr string
  | JArr "jsval list"
  | JObj "(string \<times> jsval) list"

text \<open>The values thrown in this service: the two deliberate kinds and what a collaborator rejects with.\<close>

datatype exn =
    TypeError
  | Error string
  | ResponseError
  | RequestError
  | OtherError

text \<open>ToBoolean.\<close>

fun truthy :: "jsval \<Rightarrow> bool" where
  "truthy JUndefined = False"
| "truthy JNull = False"
| "truthy (JBool b) = b"
| "truthy (JNum n) = (n \<noteq> 0)"
| "truthy (JStr s) = (s \<noteq> [])"
| "truthy (JArr xs) = True"
| "truthy (JObj kvs) = True"

text \<open>
  A canonical array index written as a property name: \<^verbatim>\<open>"0"\<close>, \<^verbatim>\<open>"17"\<close>, but not
  \<^verbatim>\<open>"01"\<close>.
\<close>

definition digit_val :: "char \<Rightarrow> nat" where
  "digit_val c = of_char c - 48"

definition is_digit :: "char \<Rightarrow> bool" where
  "is_digit c = (48 \<le> (of_char c :: nat) \<and> (of_char c :: nat) \<le> 57)"

definition index_of_key :: "string \<Rightarrow> nat option" where
  "index_of_key k =
     (if k = [] \<or> \<not> list_all is_digit k \<or> (length k > 1 \<and> hd k = CHR ''0'') then None
      else Some (foldl (\<lambda>n c. 10 * n + digit_val c) 0 k))"

text \<open>
  Reading a property \<^verbatim>\<open>v.k\<close> or \<^verbatim>\<open>v[k]\<close>: a TypeError on \<^verbatim>\<open>undefined\<close> and
  \<^verbatim>\<open>null\<close>, the own property otherwise. The names this service reads (topic, originator,
  payload, resource, submissionId, typeId, aggregateScore, challengeId, legacySubmissionId,
  result, content, 0, subTrack) are not inherited from a built-in prototype, so only own
  properties, array and string indices and \<^verbatim>\<open>length\<close> are modelled.
\<close>

definition own :: "(string \<times> jsval) list \<Rightarrow> string \<Rightarrow> jsval" where
  "own kvs k = (case map_of kvs k of Some v \<Rightarrow> v | None \<Rightarrow> JUndefined)"

fun get_prop :: "jsval \<Rightarrow> string \<Rightarrow> exn + jsval" where
  "get_prop JUndefined k = Inl TypeError"
| "get_prop JNull k = Inl TypeError"
| "get_prop (JObj kvs) k = Inr (own kvs k)"
| "get_prop (JArr xs) k =
     Inr (if k = ''length'' then JNum (of_nat (length xs))
          else case index_of_key k of
                 Some i \<Rightarrow> if i < length xs then xs ! i else JUndefined
               | None \<Rightarrow> JUndefined)"
| "get_prop (JStr s) k =
     Inr (if k = ''length'' then JNum (of_nat (length s))
          else case index_of_key k of
                 Some i \<Rightarrow> if i < length s then JStr [s ! i] else JUndefined
               | None \<Rightarrow> JUndefined)"
| "get_prop (JBool b) k = Inr JUndefined"
| "get_prop (JNum n) k = Inr JUndefined"

text \<open>
  Whether converting a value to a string (in a template literal) throws: an object from JSON
  with an own \<^verbatim>\<open>toString\<close> property has no callable conversion, and an array converts
  its elements.
\<close>

fun to_string_throws :: "jsval \<Rightarrow> bool" where
  "to_string_throws (JObj kvs) = (map_of kvs ''toString'' \<noteq> None)"
| "to_string_throws (JArr xs) = list_ex to_string_throws xs"
| "to_string_throws v = False"

text \<open>
  lodash's \<^verbatim>\<open>_.get(object, path)\<close> for a path given as a string: the whole string is tried
  as one key when the object has it, else the keys of the path are followed while the value
  is neither \<^verbatim>\<open>null\<close> nor \<^verbatim>\<open>undefined\<close>.
\<close>

fun nullish :: "jsval \<Rightarrow> bool" where
  "nullish JUndefined = True"
| "nullish JNull = True"
| "nullish v = False"

fun baseGet :: "jsval \<Rightarrow> string list \<Rightarrow> jsval" where
  "baseGet v [] = v"
| "baseGet v (k # ks) =
     (case get_prop v k of Inl e \<Rightarrow> JUndefined | Inr w \<Rightarrow> baseGet w ks)"

fun has_key :: "jsval \<Rightarrow> string \<Rightarrow> bool" where
  "has_key (JObj kvs) k = (map_of kvs k \<noteq> None)"
| "has_key v k = False"

definition lodash_get :: "jsval \<Rightarrow> string \<Rightarrow> string list \<Rightarrow> jsval" where
  "lodash_get object path_string path_keys =
     (if nullish object then JUndefined
      else if has_key object path_string then baseGet object [path_string]
      else baseGet object path_keys)"

section \<open>Strings of the configuration\<close>

text \<open>\<^verbatim>\<open>s.split(',')\<close>: always at least one piece.\<close>

fun split :: "char \<Rightarrow> string \<Rightarrow> string list" where
  "split sep [] = [[]]"
| "split sep (c # cs) =
     (if c = sep then [] # split sep cs
      else case split sep cs of
             [] \<Rightarrow> [[c]]
           | p # ps \<Rightarrow> (c # p) # ps)"

text \<open>
  \<^verbatim>\<open>s.trim()\<close>. Of JavaScript's white space and line terminators, those that fit in one
  8-bit code unit: tab, line feed, vertical tab, form feed, carriage return, space and
  no-break space.
\<close>

definition is_space :: "char \<Rightarrow> bool" where
  "is_space c = ((of_char c :: nat) \<in> {9, 10, 11, 12, 13, 32, 160})"

definition trim :: "string \<Rightarrow> string" where
  "trim s = rev (dropWhile is_space (rev (dropWhile is_space s)))"

text \<open>\<^verbatim>\<open>xs.includes(v)\<close> on an array of strings: no coercion, so only a string can be found.\<close>

fun array_includes :: "string list \<Rightarrow> jsval \<Rightarrow> bool" where
  "array_includes xs (JStr s) = (s \<in> set xs)"
| "array_includes xs v = False"

text \<open>\<^verbatim>\<open>xs.join(sep)\<close> on an array of strings.\<close>

fun join :: "string \<Rightarrow> string list \<Rightarrow> string" where
  "join sep [] = []"
| "join sep [x] = x"
| "join sep (x # y # ys) = x @ sep @ join sep (y # ys)"

section \<open>Schema validation\<close>

text \<open>
  The part of Joi 13 that \<^verbatim>\<open>eventSchema\<close> uses. A schema carries its type, its presence
  flag, its list of valid values (with \<^verbatim>\<open>allowOnly\<close>), its rules, the alternatives of
  \<^verbatim>\<open>try\<close>, the children of \<^verbatim>\<open>keys\<close> and the \<^verbatim>\<open>allowUnknown\<close> flag of
  \<^verbatim>\<open>unknown\<close>.
\<close>

datatype joi_type = TString | TNumber | TDate | TAlternatives | TObject

datatype test = Integer | Positive | Min rat | Max rat | Uri | Guid

datatype schema = Schema
  (stype: joi_type)
  (presence_required: bool)
  (valids: "jsval list")
  (allowOnly: bool)
  (tests: "test list")
  (matches: "schema list")
  (children: "(string \<times> schema) list")
  (allowUnknown: "bool option")

definition Joi_string :: schema where
  "Joi_string = Schema TString False [] False [] [] [] None"

definition Joi_number :: schema where
  "Joi_number = Schema TNumber False [] False [] [] [] None"

definition Joi_date :: schema where
  "Joi_date = Schema TDate False [] False [] [] [] None"

definition Joi_alternatives :: schema where
  "Joi_alternatives = Schema TAlternatives False [] False [] [] [] None"

text \<open>\<^verbatim>\<open>Joi.object().keys({...})\<close>; an object schema is only used with its keys here.\<close>

definition Joi_object_keys :: "(string \<times> schema) list \<Rightarrow> schema" where
  "Joi_object_keys cs = Schema TObject False [] False [] [] cs None"

fun required :: "schema \<Rightarrow> schema" where
  "required (Schema ty req vs ao ts ms cs au) = Schema ty True vs ao ts ms cs au"

fun optional :: "schema \<Rightarrow> schema" where
  "optional (Schema ty req vs ao ts ms cs au) = Schema ty False vs ao ts ms cs au"

fun valid :: "jsval list \<Rightarrow> schema \<Rightarrow> schema" where
  "valid ws (Schema ty req vs ao ts ms cs au) = Schema ty req (vs @ ws) True ts ms cs au"

fun rule :: "test \<Rightarrow> schema \<Rightarrow> schema" where
  "rule t (Schema ty req vs ao ts ms cs au) = Schema ty req vs ao (ts @ [t]) ms cs au"

fun alternatives_try :: "schema list \<Rightarrow> schema \<Rightarrow> schema" where
  "alternatives_try ns (Schema ty req vs ao ts ms cs au) = Schema ty req vs ao ts (ms @ ns) cs au"

fun unknown :: "bool \<Rightarrow> schema \<Rightarrow> schema" where
  "unknown b (Schema ty req vs ao ts ms cs au) = Schema ty req vs ao ts ms cs (Some b)"

text \<open>The custom type of the source, \<^verbatim>\<open>Joi.id\<close>.\<close>

definition Joi_id :: schema where
  "Joi_id = required (rule Positive (rule Integer Joi_number))"

text \<open>The event schema to validate events from Kafka.\<close>

definition payloadSchema :: schema where
  "payloadSchema = unknown True (required (Joi_object_keys [
     (''id'', required (alternatives_try [Joi_id, rule Guid Joi_string] Joi_alternatives)),
     (''resource'', alternatives_try [valid [JStr ''submission''] Joi_string,
                                      valid [JStr ''review''] Joi_string,
                                      valid [JStr ''reviewSummation''] Joi_string] Joi_alternatives),
     (''challengeId'', optional Joi_id),
     (''memberId'', optional Joi_id),
     (''submissionPhaseId'', optional Joi_id),
     (''url'', optional (rule Uri Joi_string)),
     (''type'', optional Joi_string),
     (''legacySubmissionId'', optional (rule Positive (rule Integer Joi_number))),
     (''isExample'', optional (valid [JNum 0, JNum 1] (rule Integer Joi_number))),
     (''typeId'', optional Joi_string),
     (''score'', optional (rule (Max 100) (rule (Min 0) Joi_number))),
     (''metadata'', optional (Joi_object_keys [
        (''testType'', required Joi_string)]))]))"

definition eventSchema :: schema where
  "eventSchema = Joi_object_keys [
     (''topic'', required Joi_string),
     (''originator'', required Joi_string),
     (''timestamp'', required Joi_date),
     (''mime-type'', required Joi_string),
     (''payload'', payloadSchema)]"

text \<open>
  An error of Joi: its type, with the valid values or the limit that its message quotes, and
  the path of the key. What the schema leaves to the platform and to Joi's tables:
  \<^verbatim>\<open>JSON.parse\<close> (\<open>None\<close> when it throws), Joi's conversion of a string to a number
  (\<open>None\<close> for NaN), whether Joi's date conversion of a string or a number gives a valid
  date, its GUID and URI patterns, and the text of the message of an error.
\<close>

datatype err =
    any_required | any_empty | any_allowOnly "jsval list"
  | string_base | string_uri | string_guid
  | number_base | number_integer | number_positive | number_min rat | number_max rat
  | date_base | object_base | object_allowUnknown | alternatives_base

datatype detail = Detail (dpath: "string list") (dtype: err)

record library =
  JSON_parse :: "string \<Rightarrow> jsval option"
  number_of_string :: "string \<Rightarrow> rat option"
  is_date :: "jsval \<Rightarrow> bool"
  is_guid :: "string \<Rightarrow> bool"
  is_uri :: "string \<Rightarrow> bool"
  message :: "detail \<Rightarrow> string"

text \<open>The options of the call in \<^verbatim>\<open>handle\<close>; the others keep Joi's defaults.\<close>

record options =
  abortEarly :: bool
  stripUnknown :: bool

definition handle_options :: options where
  "handle_options = \<lparr>abortEarly = False, stripUnknown = True\<rparr>"

definition is_safe_integer :: "rat \<Rightarrow> bool" where
  "is_safe_integer n = (of_int \<lfloor>n\<rfloor> = n \<and> \<bar>n\<bar> \<le> 2 ^ 53 - 1)"

definition run_test :: "library \<Rightarrow> test \<Rightarrow> jsval \<Rightarrow> err option" where
  "run_test L t v =
     (case v of
        JNum n \<Rightarrow>
          (case t of
             Integer \<Rightarrow> if is_safe_integer n then None else Some number_integer
           | Positive \<Rightarrow> if n > 0 then None else Some number_positive
           | Min m \<Rightarrow> if n \<ge> m then None else Some (number_min m)
           | Max m \<Rightarrow> if n \<le> m then None else Some (number_max m)
           | _ \<Rightarrow> None)
      | JStr s \<Rightarrow>
          (case t of
             Uri \<Rightarrow> if is_uri L s then None else Some string_uri
           | Guid \<Rightarrow> if is_guid L s then None else Some string_guid
           | _ \<Rightarrow> None)
      | _ \<Rightarrow> None)"

fun run_tests :: "options \<Rightarrow> library \<Rightarrow> test list \<Rightarrow> jsval \<Rightarrow> err list" where
  "run_tests opts L [] v = []"
| "run_tests opts L (t # ts) v =
     (case run_test L t v of
        None \<Rightarrow> run_tests opts L ts v
      | Some e \<Rightarrow> if abortEarly opts then [e] else e # run_tests opts L ts v)"

text \<open>The type check of strings, numbers and dates, with Joi's conversions.\<close>

fun base :: "library \<Rightarrow> joi_type \<Rightarrow> jsval \<Rightarrow> err + jsval" where
  "base L TString (JStr s) = Inr (JStr s)"
| "base L TString v = Inl string_base"
| "base L TNumber (JNum n) = Inr (JNum n)"
| "base L TNumber (JStr s) =
     (case number_of_string L s of Some n \<Rightarrow> Inr (JNum n) | None \<Rightarrow> Inl number_base)"
| "base L TNumber v = Inl number_base"
| "base L TDate (JStr s) = (if is_date L (JStr s) then Inr (JStr s) else Inl date_base)"
| "base L TDate (JNum n) = (if is_date L (JNum n) then Inr (JNum n) else Inl date_base)"
| "base L TDate v = Inl date_base"
| "base L ty v = Inr v"

text \<open>
  The object that Joi validates the children on: what \<^verbatim>\<open>target[key]\<close> reads, as an
  association list. An object is copied key by key onto a fresh object. \<^verbatim>\<open>JSON.parse\<close>
  makes a key spelled \<^verbatim>\<open>__proto__\<close> an ordinary own key, but assigning it to the copy
  sets the prototype of the copy instead: the copy has no such own key, and where it has no
  own key it reads the keys of that object. (A prototype that is an array gives
  \<^verbatim>\<open>length\<close> and indices only, which no schema here lists; \<^verbatim>\<open>null\<close> and other values
  give nothing; the key \<^verbatim>\<open>__proto__\<close> itself is not a key of a schema.) A string that
  parses to an object is validated on the parsed object itself, without a copy.
\<close>

definition target_entries :: "(string \<times> jsval) list \<Rightarrow> (string \<times> jsval) list" where
  "target_entries kvs =
     filter (\<lambda>(k, v). k \<noteq> ''__proto__'') kvs @
     (case map_of kvs ''__proto__'' of Some (JObj p) \<Rightarrow> p | _ \<Rightarrow> [])"

fun to_object :: "library \<Rightarrow> jsval \<Rightarrow> (string \<times> jsval) list option" where
  "to_object L (JObj kvs) = Some (target_entries kvs)"
| "to_object L (JStr s) = (case JSON_parse L s of Some (JObj kvs) \<Rightarrow> Some kvs | _ \<Rightarrow> None)"
| "to_object L v = None"

text \<open>\<^verbatim>\<open>Object.keys(target)\<close>: the own keys of that object.\<close>

fun target_keys :: "library \<Rightarrow> jsval \<Rightarrow> string list" where
  "target_keys L (JObj kvs) = remdups (map fst (filter (\<lambda>(k, v). k \<noteq> ''__proto__'') kvs))"
| "target_keys L (JStr s) =
     (case JSON_parse L s of Some (JObj kvs) \<Rightarrow> remdups (map fst kvs) | _ \<Rightarrow> [])"
| "target_keys L v = []"

text \<open>
  The keys of the object that the schema does not list. With \<^verbatim>\<open>stripUnknown\<close> they are
  deleted from the copy unless the schema says \<^verbatim>\<open>unknown(true)\<close>; what is left is an
  error unless unknown keys are allowed.
\<close>

definition unknown_errors ::
  "options \<Rightarrow> bool option \<Rightarrow> string list \<Rightarrow> (string \<times> schema) list \<Rightarrow> string list \<Rightarrow> detail list" where
  "unknown_errors opts au path cs keys =
     (let unprocessed = filter (\<lambda>k. k \<notin> set (map fst cs)) keys;
          unprocessed = (if stripUnknown opts \<and> au \<noteq> Some True then [] else unprocessed)
      in if (case au of Some b \<Rightarrow> \<not> b | None \<Rightarrow> True)
         then map (\<lambda>k. Detail (path @ [k]) object_allowUnknown) unprocessed
         else [])"

text \<open>
  \<^verbatim>\<open>schema._validate(value)\<close>, giving the details of the error (the leaves, in order);
  no detail means no error. Presence first, then the valid values, the empty string, the
  type, the valid values again after a conversion, \<^verbatim>\<open>allowOnly\<close> and the rules. With
  \<^verbatim>\<open>abortEarly\<close> the first error ends the validation. The alternatives are tried in order
  and the first that matches wins; the children of an object are validated in the order of
  the schema.
\<close>

fun validate :: "options \<Rightarrow> library \<Rightarrow> schema \<Rightarrow> string list \<Rightarrow> jsval \<Rightarrow> detail list"
  and validate_matches :: "options \<Rightarrow> library \<Rightarrow> schema list \<Rightarrow> string list \<Rightarrow> jsval \<Rightarrow> detail list option"
  and validate_children :: "options \<Rightarrow> library \<Rightarrow> (string \<times> schema) list \<Rightarrow> string list \<Rightarrow> (string \<times> jsval) list \<Rightarrow> detail list"
where
  "validate opts L (Schema ty req vs ao ts ms cs au) path v =
     (if v = JUndefined then (if req then [Detail path any_required] else [])
      else if v \<in> set vs then []
      else
        let empties = (if ty = TString \<and> v = JStr [] then [Detail path any_empty] else [])
        in if empties \<noteq> [] \<and> abortEarly opts then empties
           else empties @
             (if ty = TAlternatives then
                (case validate_matches opts L ms path v of
                   None \<Rightarrow> []
                 | Some errs \<Rightarrow> if errs = [] then [Detail path alternatives_base] else errs)
              else if ty = TObject then
                (case to_object L v of
                   None \<Rightarrow> [Detail path object_base]
                 | Some kvs \<Rightarrow>
                     let errs = validate_children opts L cs path kvs
                     in if errs \<noteq> [] \<and> abortEarly opts then errs
                        else errs @ unknown_errors opts au path cs (target_keys L v))
              else
                (case base L ty v of
                   Inl e \<Rightarrow> [Detail path e]
                 | Inr w \<Rightarrow>
                     if w \<in> set vs then []
                     else
                       let only = (if ao then [Detail path (any_allowOnly vs)] else [])
                       in if only \<noteq> [] \<and> abortEarly opts then only
                          else only @ map (Detail path) (run_tests opts L ts w))))"
| "validate_matches opts L [] path v = Some []"
| "validate_matches opts L (m # ms) path v =
     (case validate opts L m path v of
        [] \<Rightarrow> None
      | e # es \<Rightarrow>
          (case validate_matches opts L ms path v of
             None \<Rightarrow> None
           | Some rest \<Rightarrow> Some (e # es @ rest)))"
| "validate_children opts L [] path kvs = []"
| "validate_children opts L ((k, c) # cs) path kvs =
     (let errs = validate opts L c (path @ [k]) (own kvs k)
      in if errs \<noteq> [] \<and> abortEarly opts then errs
         else errs @ validate_children opts L cs path kvs)"

text \<open>
  \<^verbatim>\<open>Joi.validate(value, schema, options).error.details\<close>, empty when the error is null.
  Joi validates a copy and leaves its argument as it is; the normalized copy is not
  computed here, since \<^verbatim>\<open>handle\<close> reads the error only.
\<close>

definition Joi_validate :: "options \<Rightarrow> library \<Rightarrow> schema \<Rightarrow> jsval \<Rightarrow> detail list" where
  "Joi_validate opts L sch v = validate opts L sch [] v"

section \<open>Effects\<close>

text \<open>
  What the service does to the outside is recorded in a trace, in order: the lines it logs
  and the calls it awaits. A log line is kept as the place that writes it with the values it
  interpolates. The calls are the token request of the auth provider, the two HTTP requests
  (named by the value put into the URL; the submission request also by the bearer token),
  and the two updates of the legacy store.
\<close>

datatype level = debug | info | error

datatype log_message =
    Skipped_null_or_empty_event
  | Skipped_non_well_formed_JSON_message
  | Skipped_invalid_event string
  | Skipped_event_from_topic jsval
  | Skipped_event_from_originator jsval
  | Skipped_event_from_resource jsval
  | Challenge_get_subTrack jsval
  | Skipping_as_NOT_MM_found_in "string list"
  | Skipped_Invalid_typeId
  | Fetching_submission_for jsval
  | Fetched_submission_for jsval jsval
  | Submission_API_Error exn
  | Fetching_challenge_details_for jsval
  | Challenge_Details_API_Error exn

datatype call =
    getMachineToken
  | Axios_get_submissions jsval "jsval option"
  | Axios_get_challenge jsval
  | updateReviewScore jsval
  | LegacySubmissionIdService_updateReviewScore jsval jsval string

datatype effect = Log level log_message | Call call

datatype reply = Resolve jsval | Reject exn

type_synonym trace = "effect list"

text \<open>
  The collaborators: what a call answers, given everything that happened before it. A
  rejected promise carries an error object (never \<^verbatim>\<open>null\<close> or \<^verbatim>\<open>undefined\<close>).
\<close>

type_synonym env = "trace \<Rightarrow> call \<Rightarrow> reply"

text \<open>A computation extends the trace and returns a value or throws.\<close>

type_synonym 'a prog = "trace \<Rightarrow> (exn + 'a) \<times> trace"

definition ret :: "'a \<Rightarrow> 'a prog" where
  "ret x t = (Inr x, t)"

definition throw :: "exn \<Rightarrow> 'a prog" where
  "throw e t = (Inl e, t)"

definition bnd :: "'a prog \<Rightarrow> ('a \<Rightarrow> 'b prog) \<Rightarrow> 'b prog" where
  "bnd m f t = (case m t of (Inl e, t') \<Rightarrow> (Inl e, t') | (Inr x, t') \<Rightarrow> f x t')"

definition logger :: "level \<Rightarrow> log_message \<Rightarrow> unit prog" where
  "logger l m t = (Inr (), t @ [Log l m])"

definition await :: "env \<Rightarrow> call \<Rightarrow> jsval prog" where
  "await E c t = (case E t c of Resolve v \<Rightarrow> Inr v | Reject e \<Rightarrow> Inl e, t @ [Call c])"

definition of_result :: "exn + 'a \<Rightarrow> 'a prog" where
  "of_result r t = (r, t)"

text \<open>A value inside a template literal: converted to a string, which may throw.\<close>

definition interpolate :: "jsval \<Rightarrow> unit prog" where
  "interpolate v = (if to_string_throws v then throw TypeError else ret ())"

text \<open>
  A function whose body is one \<^verbatim>\<open>try\<close> and whose \<^verbatim>\<open>catch\<close> only logs returns
  \<^verbatim>\<open>undefined\<close> after an error. The \<^verbatim>\<open>catch\<close> blocks of this service log at error
  level, in one of three wordings chosen by the shape of the error; the trace keeps the
  error itself.
\<close>

definition try_catch_log :: "jsval prog \<Rightarrow> (exn \<Rightarrow> log_message) \<Rightarrow> trace \<Rightarrow> jsval \<times> trace" where
  "try_catch_log body msg t =
     (case body t of
        (Inr v, t') \<Rightarrow> (v, t')
      | (Inl e, t') \<Rightarrow> (JUndefined, t' @ [Log error (msg e)]))"

definition total :: "(trace \<Rightarrow> 'a \<times> trace) \<Rightarrow> 'a prog" where
  "total f t = (case f t of (v, t') \<Rightarrow> (Inr v, t'))"

section \<open>The service\<close>

text \<open>
  The configuration values that decide where an event goes; they are strings. Taken for
  granted: the logger, \<^verbatim>\<open>Flatted.stringify\<close>, \<^verbatim>\<open>util.inspect\<close> and
  \<^verbatim>\<open>Axios.create\<close> do not throw.
\<close>

record config =
  KAFKA_NEW_SUBMISSION_TOPIC :: string
  KAFKA_UPDATE_SUBMISSION_TOPIC :: string
  KAFKA_NEW_SUBMISSION_ORIGINATOR :: string
  CHALLENGE_SUBTRACK :: string
  PAYLOAD_TYPES :: string

text \<open>
  Get the submission. \<open>m2m\<close> says whether an auth provider was passed; with one, its token
  is requested first and sent as a bearer token.
\<close>

definition getSubmission :: "env \<Rightarrow> jsval \<Rightarrow> bool \<Rightarrow> trace \<Rightarrow> jsval \<times> trace" where
  "getSubmission E submissionId m2m =
     try_catch_log
       (bnd (if m2m
             then bnd (await E getMachineToken) (\<lambda>token.
                  bnd (interpolate token) (\<lambda>_. ret (Some token)))
             else ret None) (\<lambda>apiOptions.
        bnd (interpolate submissionId) (\<lambda>_.
        bnd (logger info (Fetching_submission_for submissionId)) (\<lambda>_.
        bnd (await E (Axios_get_submissions submissionId apiOptions)) (\<lambda>sub_data.
        bnd (interpolate sub_data) (\<lambda>_.
        bnd (logger info (Fetched_submission_for submissionId sub_data)) (\<lambda>_.
        ret sub_data)))))))
       Submission_API_Error"

text \<open>Get the subtrack for a challenge.\<close>

definition getSubTrack :: "env \<Rightarrow> jsval \<Rightarrow> bool \<Rightarrow> trace \<Rightarrow> jsval \<times> trace" where
  "getSubTrack E submissionId m2m =
     try_catch_log
       (bnd (total (getSubmission E submissionId m2m)) (\<lambda>submission.
        bnd (of_result (get_prop submission ''challengeId'')) (\<lambda>challengeId.
        bnd (interpolate challengeId) (\<lambda>_.
        bnd (logger info (Fetching_challenge_details_for challengeId)) (\<lambda>_.
        bnd (await E (Axios_get_challenge challengeId)) (\<lambda>result_data.
        ret (lodash_get result_data ''result.content[0].subTrack''
               [''result'', ''content'', ''0'', ''subTrack''])))))))
       Challenge_Details_API_Error"

text \<open>The message value of \<^verbatim>\<open>handle\<close>: a JSON string, or nothing.\<close>

datatype message_value = undefined_value | null_value | string_value string

text \<open>
  Handle new submission message, lines 173 to 193: the branch on the resource, for an event
  whose subtrack has passed.
\<close>

definition handle_branch :: "config \<Rightarrow> env \<Rightarrow> bool \<Rightarrow> jsval \<Rightarrow> unit prog" where
  "handle_branch cfg E m2m event =
     bnd (of_result (get_prop event ''payload'')) (\<lambda>payload.
     bnd (of_result (get_prop payload ''resource'')) (\<lambda>resource.
     if truthy resource \<and> resource = JStr ''review'' then
       (let payloadTypes = map trim (split CHR '','' (PAYLOAD_TYPES cfg)) in
        bnd (of_result (get_prop payload ''typeId'')) (\<lambda>typeId.
        if truthy typeId \<and> array_includes payloadTypes typeId
        then bnd (await E (updateReviewScore event)) (\<lambda>_. ret ())
        else logger debug Skipped_Invalid_typeId))
     else if truthy resource \<and> resource = JStr ''reviewSummation'' then
       bnd (of_result (get_prop event ''topic'')) (\<lambda>topic.
       if topic = JStr (KAFKA_NEW_SUBMISSION_TOPIC cfg) then
         (let reviewScore = lodash_get event ''payload.aggregateScore'' [''payload'', ''aggregateScore''];
              submissionId = lodash_get event ''payload.submissionId'' [''payload'', ''submissionId'']
          in bnd (total (getSubmission E submissionId m2m)) (\<lambda>sub.
             bnd (of_result (get_prop sub ''legacySubmissionId'')) (\<lambda>legacySubmissionId.
             if \<not> truthy legacySubmissionId
             then throw (Error ''legacySubmissionId not found'')
             else bnd (await E (LegacySubmissionIdService_updateReviewScore
                                  legacySubmissionId reviewScore ''finalScore'')) (\<lambda>_. ret ()))))
       else ret ())
     else ret ()))"

text \<open>
  Lines 148 to 171: the checks of topic, originator and resource, then the subtrack of the
  challenge.
\<close>

definition handle_filter :: "config \<Rightarrow> env \<Rightarrow> bool \<Rightarrow> jsval \<Rightarrow> unit prog" where
  "handle_filter cfg E m2m event =
     bnd (of_result (get_prop event ''topic'')) (\<lambda>topic.
     if topic \<noteq> JStr (KAFKA_NEW_SUBMISSION_TOPIC cfg) \<and> topic \<noteq> JStr (KAFKA_UPDATE_SUBMISSION_TOPIC cfg)
     then bnd (interpolate topic) (\<lambda>_. logger debug (Skipped_event_from_topic topic))
     else
     bnd (of_result (get_prop event ''originator'')) (\<lambda>originator.
     if originator \<noteq> JStr (KAFKA_NEW_SUBMISSION_ORIGINATOR cfg)
     then bnd (interpolate originator) (\<lambda>_. logger debug (Skipped_event_from_originator originator))
     else
     bnd (of_result (get_prop event ''payload'')) (\<lambda>payload.
     bnd (of_result (get_prop payload ''resource'')) (\<lambda>resource.
     if resource = JStr ''submission''
     then bnd (interpolate resource) (\<lambda>_. logger debug (Skipped_event_from_resource resource))
     else
     bnd (of_result (get_prop payload ''submissionId'')) (\<lambda>submissionId.
     bnd (total (getSubTrack E submissionId m2m)) (\<lambda>subTrack.
     bnd (interpolate subTrack) (\<lambda>_.
     bnd (logger debug (Challenge_get_subTrack subTrack)) (\<lambda>_.
     (let challangeSubtracks = map trim (split CHR '','' (CHALLENGE_SUBTRACK cfg)) in
      if \<not> (truthy subTrack \<and> array_includes challangeSubtracks subTrack)
      then logger debug (Skipping_as_NOT_MM_found_in challangeSubtracks)
      else handle_branch cfg E m2m event)))))))))"

text \<open>
  Handle new submission message. The result is \<open>Inr ()\<close> when \<^verbatim>\<open>handle\<close> returns and
  \<open>Inl e\<close> when it throws \<open>e\<close> to its caller. Validation is asked for its error only; the
  event that goes on is the parsed one.
\<close>

definition handle :: "config \<Rightarrow> library \<Rightarrow> env \<Rightarrow> message_value \<Rightarrow> bool \<Rightarrow> unit prog" where
  "handle cfg L E val m2m =
     (case val of
        undefined_value \<Rightarrow> logger debug Skipped_null_or_empty_event
      | null_value \<Rightarrow> logger debug Skipped_null_or_empty_event
      | string_value s \<Rightarrow>
          if s = [] then logger debug Skipped_null_or_empty_event
          else
            (case JSON_parse L s of
               None \<Rightarrow> logger debug Skipped_non_well_formed_JSON_message
             | Some event \<Rightarrow>
                 if \<not> truthy event then logger debug Skipped_null_or_empty_event
                 else
                   (let details = Joi_validate handle_options L eventSchema event
                    in if details \<noteq> []
                       then logger debug (Skipped_invalid_event (join '', '' (map (message L) details)))
                       else handle_filter cfg E m2m event)))"

text \<open>What is read off a trace: the calls, the updates of the legacy store, the enrichment calls.\<close>

fun is_mutation :: "call \<Rightarrow> bool" where
  "is_mutation (updateReviewScore event) = True"
| "is_mutation (LegacySubmissionIdService_updateReviewScore i s f) = True"
| "is_mutation c = False"

definition calls :: "trace \<Rightarrow> call list" where
  "calls t = concat (map (\<lambda>x. case x of Call c \<Rightarrow> [c] | Log l m \<Rightarrow> []) t)"

definition mutations :: "trace \<Rightarrow> call list" where
  "mutations t = filter is_mutation (calls t)"

definition enrichments :: "trace \<Rightarrow> call list" where
  "enrichments t = filter (\<lambda>c. \<not> is_mutation c) (calls t)"

text \<open>
  The calls among the effects \<open>new\<close>, made after the history \<open>h\<close>, that the collaborators
  rejected.
\<close>

fun rejections :: "env \<Rightarrow> trace \<Rightarrow> trace \<Rightarrow> call list" where
  "rejections E h [] = []"
| "rejections E h (Log l m # new) = rejections E (h @ [Log l m]) new"
| "rejections E h (Call c # new) =
     (case E h c of Reject e \<Rightarrow> [c] | Resolve v \<Rightarrow> []) @ rejections E (h @ [Call c]) new"

section \<open>Reading an event\<close>

text \<open>\<^verbatim>\<open>event.payload[k]\<close>, with the TypeError of a payload that is \<^verbatim>\<open>null\<close> or \<^verbatim>\<open>undefined\<close>.\<close>

definition payload_field :: "jsval \<Rightarrow> string \<Rightarrow> exn + jsval" where
  "payload_field event k =
     (case get_prop event ''payload'' of Inl e \<Rightarrow> Inl e | Inr payload \<Rightarrow> get_prop payload k)"




text \<open>
  What the schema asks of an event, field by field, on the object that Joi reads the fields
  from: the required fields, and for each optional payload field either its absence or its
  rule. A number may be given as a string that Joi converts, an object as its JSON text.
\<close>

fun nonempty_string :: "jsval \<Rightarrow> bool" where
  "nonempty_string (JStr s) = (s \<noteq> [])"
| "nonempty_string v = False"

fun as_number :: "library \<Rightarrow> jsval \<Rightarrow> rat option" where
  "as_number L (JNum n) = Some n"
| "as_number L (JStr s) = number_of_string L s"
| "as_number L v = None"

definition positive_integer :: "library \<Rightarrow> jsval \<Rightarrow> bool" where
  "positive_integer L v = (case as_number L v of Some n \<Rightarrow> is_safe_integer n \<and> 0 < n | None \<Rightarrow> False)"

definition number_between :: "library \<Rightarrow> rat \<Rightarrow> rat \<Rightarrow> jsval \<Rightarrow> bool" where
  "number_between L lo hi v = (case as_number L v of Some n \<Rightarrow> lo \<le> n \<and> n \<le> hi | None \<Rightarrow> False)"

fun guid_string :: "library \<Rightarrow> jsval \<Rightarrow> bool" where
  "guid_string L (JStr s) = (s \<noteq> [] \<and> is_guid L s)"
| "guid_string L v = False"

fun uri_string :: "library \<Rightarrow> jsval \<Rightarrow> bool" where
  "uri_string L (JStr s) = (s \<noteq> [] \<and> is_uri L s)"
| "uri_string L v = False"

fun date_value :: "library \<Rightarrow> jsval \<Rightarrow> bool" where
  "date_value L (JStr s) = is_date L (JStr s)"
| "date_value L (JNum n) = is_date L (JNum n)"
| "date_value L v = False"

definition absent_or :: "(jsval \<Rightarrow> bool) \<Rightarrow> jsval \<Rightarrow> bool" where
  "absent_or P v = (v = JUndefined \<or> P v)"

definition metadata_accepted :: "library \<Rightarrow> jsval \<Rightarrow> bool" where
  "metadata_accepted L v =
     (case to_object L v of Some m \<Rightarrow> nonempty_string (own m ''testType'') | None \<Rightarrow> False)"

definition payload_accepted :: "library \<Rightarrow> (string \<times> jsval) list \<Rightarrow> bool" where
  "payload_accepted L p =
     ((positive_integer L (own p ''id'') \<or> guid_string L (own p ''id''))
      \<and> absent_or (\<lambda>v. v = JStr ''submission'' \<or> v = JStr ''review'' \<or> v = JStr ''reviewSummation'')
           (own p ''resource'')
      \<and> absent_or (positive_integer L) (own p ''challengeId'')
      \<and> absent_or (positive_integer L) (own p ''memberId'')
      \<and> absent_or (positive_integer L) (own p ''submissionPhaseId'')
      \<and> absent_or (uri_string L) (own p ''url'')
      \<and> absent_or nonempty_string (own p ''type'')
      \<and> absent_or (positive_integer L) (own p ''legacySubmissionId'')
      \<and> absent_or (\<lambda>v. as_number L v = Some 0 \<or> as_number L v = Some 1) (own p ''isExample'')
      \<and> absent_or nonempty_string (own p ''typeId'')
      \<and> absent_or (number_between L 0 100) (own p ''score'')
      \<and> absent_or (metadata_accepted L) (own p ''metadata''))"

definition event_accepted :: "library \<Rightarrow> jsval \<Rightarrow> bool" where
  "event_accepted L event =
     (case to_object L event of
        None \<Rightarrow> False
      | Some kvs \<Rightarrow>
          nonempty_string (own kvs ''topic'')
          \<and> nonempty_string (own kvs ''originator'')
          \<and> date_value L (own kvs ''timestamp'')
          \<and> nonempty_string (own kvs ''mime-type'')
          \<and> (case to_object L (own kvs ''payload'') of
                None \<Rightarrow> False
              | Some p \<Rightarrow> payload_accepted L p))"

section \<open>Example data\<close>

text \<open>
  A configuration, a platform and collaborators to run the service on. The platform parses
  one message text to a given value and rejects every other text.
\<close>

definition cfg0 :: config where
  "cfg0 = \<lparr>KAFKA_NEW_SUBMISSION_TOPIC = ''submission.notification.create'',
            KAFKA_UPDATE_SUBMISSION_TOPIC = ''submission.notification.update'',
            KAFKA_NEW_SUBMISSION_ORIGINATOR = ''submission-api'',
            CHALLENGE_SUBTRACK = ''MARATHON_MATCH, DEVELOP_MARATHON_MATCH'',
            PAYLOAD_TYPES = ''type-a, type-b''\<rparr>"

text \<open>
  The messages of Joi 13: the key in double quotes (\<^verbatim>\<open>value\<close> at the root), then the text
  of the error type with its valid values or its limit, printed as JavaScript prints them
  (numbers in plain decimal notation, which is right for numbers of moderate size with at
  most twenty decimal places; the limits and valid values of this schema are whole
  numbers and strings).
\<close>

definition dq :: string where
  "dq = [CHR 0x22]"

fun decimal :: "nat \<Rightarrow> string" where
  "decimal n = (if n < 10 then [''0123456789'' ! n]
                else decimal (n div 10) @ [''0123456789'' ! (n mod 10)])"

fun fraction_digits :: "nat \<Rightarrow> rat \<Rightarrow> string" where
  "fraction_digits 0 r = []"
| "fraction_digits (Suc k) r =
     (if r = 0 then []
      else (''0123456789'' ! nat \<lfloor>r * 10\<rfloor>) # fraction_digits k (r * 10 - of_int \<lfloor>r * 10\<rfloor>))"

definition number_text :: "rat \<Rightarrow> string" where
  "number_text n =
     (if n < 0 then ''-'' else []) @ decimal (nat \<lfloor>\<bar>n\<bar>\<rfloor>) @
     (if \<bar>n\<bar> = of_int \<lfloor>\<bar>n\<bar>\<rfloor> then []
      else ''.'' @ fraction_digits 20 (\<bar>n\<bar> - of_int \<lfloor>\<bar>n\<bar>\<rfloor>))"

fun value_text :: "jsval \<Rightarrow> string" where
  "value_text (JStr s) = s"
| "value_text (JNum n) = number_text n"
| "value_text (JBool b) = (if b then ''true'' else ''false'')"
| "value_text JNull = ''null''"
| "value_text JUndefined = ''undefined''"
| "value_text (JArr xs) = ''['' @ join '', '' (map value_text xs) @ '']''"
| "value_text (JObj kvs) = ''[object Object]''"

definition message_text :: "detail \<Rightarrow> string" where
  "message_text d =
     (case d of Detail path e \<Rightarrow>
        dq @ (if path = [] then ''value'' else last path) @ dq @
        (case e of
           any_required \<Rightarrow> '' is required''
         | any_empty \<Rightarrow> '' is not allowed to be empty''
         | any_allowOnly vs \<Rightarrow> '' must be one of ['' @ join '', '' (map value_text vs) @ '']''
         | string_base \<Rightarrow> '' must be a string''
         | string_uri \<Rightarrow> '' must be a valid uri''
         | string_guid \<Rightarrow> '' must be a valid GUID''
         | number_base \<Rightarrow> '' must be a number''
         | number_integer \<Rightarrow> '' must be an integer''
         | number_positive \<Rightarrow> '' must be a positive number''
         | number_min m \<Rightarrow> '' must be larger than or equal to '' @ number_text m
         | number_max m \<Rightarrow> '' must be less than or equal to '' @ number_text m
         | date_base \<Rightarrow> '' must be a number of milliseconds or valid date string''
         | object_base \<Rightarrow> '' must be an object''
         | object_allowUnknown \<Rightarrow> '' is not allowed''
         | alternatives_base \<Rightarrow> '' not matching any of the allowed alternatives''))"

definition library_parsing :: "string \<Rightarrow> jsval \<Rightarrow> library" where
  "library_parsing text v =
     \<lparr>JSON_parse = (\<lambda>s. if s = text then Some v else None),
      number_of_string = (\<lambda>s. if s = ''42'' then Some 42 else None),
      is_date = (\<lambda>d. d = JStr ''2020-01-01T00:00:00Z''),
      is_guid = (\<lambda>s. s = ''a12a4180-65aa-42ec-a945-5fd21dec0501''),
      is_uri = (\<lambda>s. take 8 s = ''https://''),
      message = message_text\<rparr>"

definition event_of :: "string \<Rightarrow> (string \<times> jsval) list \<Rightarrow> jsval" where
  "event_of topic payload =
     JObj [(''topic'', JStr topic),
           (''originator'', JStr ''submission-api''),
           (''timestamp'', JStr ''2020-01-01T00:00:00Z''),
           (''mime-type'', JStr ''application/json''),
           (''payload'', JObj payload)]"

text \<open>The scenario of a final score: a review summation on the new-submission topic.\<close>

definition summation_event :: jsval where
  "summation_event = event_of ''submission.notification.create''
     [(''id'', JNum 42), (''resource'', JStr ''reviewSummation''),
      (''submissionId'', JNum 42), (''aggregateScore'', JNum 87.5)]"

definition review_event :: "string \<Rightarrow> jsval" where
  "review_event typeId = event_of ''submission.notification.create''
     [(''id'', JNum 7), (''resource'', JStr ''review''), (''submissionId'', JNum 42),
      (''typeId'', JStr typeId), (''score'', JNum 90)]"

text \<open>
  Collaborators that answer every request: the submission record, the challenge with a
  marathon-match subtrack, and a store that accepts every update.
\<close>

definition submission_record :: jsval where
  "submission_record = JObj [(''challengeId'', JNum 30000), (''legacySubmissionId'', JNum 9001)]"

definition challenge_details :: jsval where
  "challenge_details =
     JObj [(''result'', JObj [(''content'', JArr [JObj [(''subTrack'', JStr ''DEVELOP_MARATHON_MATCH'')]])])]"

definition env0 :: env where
  "env0 t c =
     (case c of
        Axios_get_submissions i tok \<Rightarrow> Resolve submission_record
      | Axios_get_challenge i \<Rightarrow> Resolve challenge_details
      | _ \<Rightarrow> Resolve JUndefined)"

text \<open>The same collaborators, but the submission service is reachable for the first request only.\<close>

definition env_second_fetch_fails :: env where
  "env_second_fetch_fails t c =
     (case c of
        Axios_get_submissions i tok \<Rightarrow>
          if list_ex (\<lambda>x. case x of Call (Axios_get_submissions j k) \<Rightarrow> True | _ \<Rightarrow> False) t
          then Reject RequestError else Resolve submission_record
      | _ \<Rightarrow> env0 t c)"

text \<open>Collaborators that are all unreachable.\<close>

definition env_unreachable :: env where
  "env_unreachable t c = Reject RequestError"

text \<open>The events of the examples, each with the text of its message.\<close>

definition summation_message :: string where
  \<open>summation_message = ''{"topic":"submission.notification.create","originator":"submission-api","timestamp":"2020-01-01T00:00:00Z","mime-type":"application/json","payload":{"id":42,"resource":"reviewSummation","submissionId":42,"aggregateScore":87.5}}''\<close>

definition summation_library :: library where
  "summation_library = library_parsing summation_message summation_event"

definition review_message :: string where
  \<open>review_message = ''{"topic":"submission.notification.create","originator":"submission-api","timestamp":"2020-01-01T00:00:00Z","mime-type":"application/json","payload":{"id":7,"resource":"review","submissionId":42,"typeId":"type-a","score":90}}''\<close>

definition review_library :: library where
  "review_library = library_parsing review_message (review_event ''type-a'')"

definition foreign_topic_event :: jsval where
  "foreign_topic_event = event_of ''challenge.notification.create''
     [(''id'', JNum 7), (''resource'', JStr ''review''), (''submissionId'', JNum 42)]"

definition foreign_topic_message :: string where
  \<open>foreign_topic_message = ''{"topic":"challenge.notification.create","originator":"submission-api","timestamp":"2020-01-01T00:00:00Z","mime-type":"application/json","payload":{"id":7,"resource":"review","submissionId":42}}''\<close>

definition foreign_topic_library :: library where
  "foreign_topic_library = library_parsing foreign_topic_message foreign_topic_event"

text \<open>An event with four errors: a topic that is a number, no originator, no id, a score of 200.\<close>

definition four_errors_event :: jsval where
  "four_errors_event =
     JObj [(''topic'', JNum 1),
           (''timestamp'', JStr ''2020-01-01T00:00:00Z''),
           (''mime-type'', JStr ''application/json''),
           (''payload'', JObj [(''resource'', JStr ''review''), (''score'', JNum 200)])]"

definition four_errors_message :: string where
  \<open>four_errors_message = ''{"topic":1,"timestamp":"2020-01-01T00:00:00Z","mime-type":"application/json","payload":{"resource":"review","score":200}}''\<close>

definition four_errors_library :: library where
  "four_errors_library = library_parsing four_errors_message four_errors_event"





text \<open>
  Two events with a payload key spelled \<^verbatim>\<open>__proto__\<close>: one whose payload has its id only
  there, one whose payload has a score of 200 only there.
\<close>

definition inherited_id_event :: jsval where
  "inherited_id_event = event_of ''submission.notification.create''
     [(''__proto__'', JObj [(''id'', JNum 42)]), (''resource'', JStr ''review''),
      (''submissionId'', JNum 42), (''typeId'', JStr ''type-a'')]"

definition inherited_score_event :: jsval where
  "inherited_score_event = event_of ''submission.notification.create''
     [(''id'', JNum 7), (''__proto__'', JObj [(''score'', JNum 200)]), (''resource'', JStr ''review'')]"

section \<open>Properties\<close>

subsection \<open>Traces\<close>

lemmas prog_defs = bnd_def ret_def throw_def logger_def await_def of_result_def
  interpolate_def total_def try_catch_log_def

lemma calls_simps:
  "calls [] = []"
  "calls (Log l m # t) = calls t"
  "calls (Call c # t) = c # calls t"
  "calls (t @ u) = calls t @ calls u"
  by (simp_all add: calls_def)

lemma mutations_simps:
  "mutations [] = []"
  "mutations (Log l m # t) = mutations t"
  "mutations (Call c # t) = (if is_mutation c then c # mutations t else mutations t)"
  "mutations (t @ u) = mutations t @ mutations u"
  by (simp_all add: mutations_def calls_simps)

lemma enrichments_simps:
  "enrichments [] = []"
  "enrichments (Log l m # t) = enrichments t"
  "enrichments (Call c # t) = (if is_mutation c then enrichments t else c # enrichments t)"
  "enrichments (t @ u) = enrichments t @ enrichments u"
  by (simp_all add: enrichments_def calls_simps)

lemmas trace_simps = calls_simps mutations_simps enrichments_simps

subsection \<open>Messages that are dropped before validation\<close>

text \<open>
  C3. For every message text that \<^verbatim>\<open>JSON.parse\<close> rejects, \<^verbatim>\<open>handle\<close> returns normally
  and makes no call at all, so no update of the legacy store and no enrichment request; it
  only logs (the empty text is skipped one check earlier, as an empty event).
\<close>

theorem malformed_json_is_dropped:
  assumes "JSON_parse L s = None"
  shows "fst (handle cfg L E (string_value s) m2m t) = Inr ()
       \<and> calls (snd (handle cfg L E (string_value s) m2m t)) = calls t
       \<and> mutations (snd (handle cfg L E (string_value s) m2m t)) = mutations t
       \<and> enrichments (snd (handle cfg L E (string_value s) m2m t)) = enrichments t
       \<and> (s \<noteq> [] \<longrightarrow> snd (handle cfg L E (string_value s) m2m t)
                          = t @ [Log debug Skipped_non_well_formed_JSON_message])"
  using assms by (simp add: handle_def logger_def trace_simps)

theorem malformed_json_is_dropped_witness:
  "JSON_parse (library_parsing ''null'' JNull) ''{not json'' = None
   \<and> handle cfg0 (library_parsing ''null'' JNull) env0 (string_value ''{not json'') False []
       = (Inr (), [Log debug Skipped_non_well_formed_JSON_message])"
  using malformed_json_is_dropped [of "library_parsing ''null'' JNull" "''{not json''" cfg0 env0 False "[]"]
  by (simp add: library_parsing_def prod_eq_iff)

text \<open>
  C10. For a message value that is \<^verbatim>\<open>null\<close>, \<^verbatim>\<open>undefined\<close> or the empty string, and
  for a message text that parses to a falsy value, \<^verbatim>\<open>handle\<close> returns at once: it does
  not throw, it logs that it skipped an empty event and does nothing else, so there is no
  validation message, no enrichment request and no update of the store.
\<close>

theorem null_or_empty_event_is_skipped:
  assumes "val = undefined_value \<or> val = null_value \<or> val = string_value []
         \<or> (\<exists>s event. val = string_value s \<and> JSON_parse L s = Some event \<and> \<not> truthy event)"
  shows "handle cfg L E val m2m t = (Inr (), t @ [Log debug Skipped_null_or_empty_event])
       \<and> calls (snd (handle cfg L E val m2m t)) = calls t"
  using assms by (auto simp: handle_def logger_def trace_simps)

theorem null_or_empty_event_is_skipped_witness:
  "JSON_parse (library_parsing ''null'' JNull) ''null'' = Some JNull \<and> \<not> truthy JNull
   \<and> handle cfg0 (library_parsing ''null'' JNull) env0 (string_value ''null'') False []
       = (Inr (), [Log debug Skipped_null_or_empty_event])"
  using null_or_empty_event_is_skipped
          [of "string_value ''null''" "library_parsing ''null'' JNull" cfg0 env0 False "[]"]
  by (simp add: library_parsing_def)

subsection \<open>The enrichment calls leave the store alone\<close>

lemma getSubmission_mutations:
  "mutations (snd (getSubmission E submissionId m2m t)) = mutations t"
  by (simp add: getSubmission_def prog_defs trace_simps split: reply.splits)

lemma getSubTrack_mutations:
  "mutations (snd (getSubTrack E submissionId m2m t)) = mutations t"
proof -
  obtain sub t1 where s: "getSubmission E submissionId m2m t = (sub, t1)"
    by (cases "getSubmission E submissionId m2m t")
  have "mutations t1 = mutations t"
    using getSubmission_mutations [of E submissionId m2m t] s by simp
  then show ?thesis
    by (simp add: getSubTrack_def prog_defs trace_simps s split: reply.splits sum.splits)
qed

subsection \<open>What validation accepts\<close>

text \<open>
  The schema is read field by field: each lemma below says when the validation of one kind
  of field yields no detail, and \<open>Joi_validate_eventSchema\<close> puts them together: the
  events without details are exactly those that \<open>event_accepted\<close> describes.
\<close>

lemmas joi_defs = Joi_string_def Joi_number_def Joi_date_def Joi_alternatives_def
  Joi_object_keys_def Joi_id_def

lemma validate_children_all:
  "\<not> abortEarly opts \<Longrightarrow>
   validate_children opts L cs path kvs =
     concat (map (\<lambda>(k, c). validate opts L c (path @ [k]) (own kvs k)) cs)"
  by (induction cs) (auto simp: Let_def)

lemma validate_children_member:
  "\<not> abortEarly opts \<Longrightarrow> validate_children opts L cs path kvs = [] \<Longrightarrow> (k, c) \<in> set cs \<Longrightarrow>
   validate opts L c (path @ [k]) (own kvs k) = []"
  by (induction cs) (auto simp: Let_def)

lemma validate_required_string:
  "\<not> abortEarly opts \<Longrightarrow>
   validate opts L (required Joi_string) path v = [] \<longleftrightarrow> (\<exists>s. v = JStr s \<and> s \<noteq> [])"
  by (cases v) (auto simp: joi_defs Let_def)

lemma validate_required_date:
  "validate opts L (required Joi_date) path v = [] \<longleftrightarrow>
     ((\<exists>s. v = JStr s) \<or> (\<exists>n. v = JNum n)) \<and> is_date L v"
  by (cases v) (auto simp: joi_defs Let_def)

lemma validate_Joi_id:
  "\<not> abortEarly opts \<Longrightarrow>
   validate opts L Joi_id path v = [] \<longleftrightarrow>
     (\<exists>n. (v = JNum n \<or> (\<exists>s. v = JStr s \<and> number_of_string L s = Some n)) \<and> is_safe_integer n \<and> 0 < n)"
  by (cases v) (auto simp: joi_defs Let_def run_test_def split: option.splits)

lemma validate_guid:
  "\<not> abortEarly opts \<Longrightarrow> v \<noteq> JUndefined \<Longrightarrow>
   validate opts L (rule Guid Joi_string) path v = [] \<longleftrightarrow>
     (\<exists>s. v = JStr s \<and> s \<noteq> [] \<and> is_guid L s)"
  by (cases v) (auto simp: joi_defs Let_def run_test_def split: option.splits)

lemma validate_matches_None:
  "validate_matches opts L ms path v = None \<longleftrightarrow> (\<exists>m\<in>set ms. validate opts L m path v = [])"
  by (induction ms) (auto split: list.splits option.splits)

lemma validate_matches_Some_Nil:
  "validate_matches opts L ms path v = Some [] \<longleftrightarrow> ms = []"
  by (cases ms) (auto split: list.splits option.splits)

lemma validate_alternatives:
  "v \<noteq> JUndefined \<Longrightarrow>
   validate opts L (Schema TAlternatives req [] ao ts ms cs au) path v = [] \<longleftrightarrow>
     (\<exists>m\<in>set ms. validate opts L m path v = [])"
  using validate_matches_None [of opts L ms path v] validate_matches_Some_Nil [of opts L ms path v]
  by (cases "validate_matches opts L ms path v") (auto simp: Let_def)

lemma validate_id:
  assumes "\<not> abortEarly opts"
  shows "validate opts L (required (alternatives_try [Joi_id, rule Guid Joi_string] Joi_alternatives)) path v = [] \<longleftrightarrow>
     (\<exists>n. (v = JNum n \<or> (\<exists>s. v = JStr s \<and> number_of_string L s = Some n)) \<and> is_safe_integer n \<and> 0 < n)
     \<or> (\<exists>s. v = JStr s \<and> s \<noteq> [] \<and> is_guid L s)"
proof (cases "v = JUndefined")
  case True
  then show ?thesis by (simp add: Joi_alternatives_def)
next
  case False
  have "required (alternatives_try [Joi_id, rule Guid Joi_string] Joi_alternatives)
        = Schema TAlternatives True [] False [] [Joi_id, rule Guid Joi_string] [] None"
    by (simp add: Joi_alternatives_def)
  then show ?thesis
    using False validate_alternatives [OF False, of opts L True False "[]" "[Joi_id, rule Guid Joi_string]" "[]" None path]
      validate_Joi_id [OF assms, of L path v] validate_guid [OF assms False, of L path]
    by (simp del: validate.simps)
qed

lemma to_object_cases:
  "to_object L v = Some p \<Longrightarrow> (\<exists>kvs. v = JObj kvs) \<or> (\<exists>s. v = JStr s)"
  by (cases v) auto

lemma to_object_not_undefined: "to_object L v = Some kvs \<Longrightarrow> v \<noteq> JUndefined"
  by auto

lemma unknown_errors_handle_options:
  "unknown_errors handle_options au path cs kvs = []"
  by (simp add: unknown_errors_def handle_options_def split: option.splits)

lemma validate_object_handle:
  assumes "stype sch = TObject" "valids sch = []" "v \<noteq> JUndefined" "to_object L v = Some kvs"
  shows "validate handle_options L sch path v
         = concat (map (\<lambda>(k, c). validate handle_options L c (path @ [k]) (own kvs k)) (children sch))"
proof -
  have na: "\<not> abortEarly handle_options" by (simp add: handle_options_def)
  show ?thesis
    using assms
    by (cases sch) (simp add: Let_def unknown_errors_handle_options validate_children_all [OF na] na)
qed

lemma eventSchema_object:
  "stype eventSchema = TObject" "valids eventSchema = []"
  by (simp_all add: eventSchema_def Joi_object_keys_def)

lemma payloadSchema_object:
  "stype payloadSchema = TObject" "valids payloadSchema = []" "presence_required payloadSchema"
  by (simp_all add: payloadSchema_def Joi_object_keys_def)

lemma validate_optional_string:
  "\<not> abortEarly opts \<Longrightarrow>
   validate opts L (optional Joi_string) path v = [] \<longleftrightarrow> absent_or nonempty_string v"
  by (cases v) (auto simp: joi_defs Let_def absent_or_def)

lemma validate_optional_uri:
  "\<not> abortEarly opts \<Longrightarrow>
   validate opts L (optional (rule Uri Joi_string)) path v = [] \<longleftrightarrow> absent_or (uri_string L) v"
  by (cases v) (auto simp: joi_defs Let_def absent_or_def run_test_def)

lemma validate_positive_integer:
  "\<not> abortEarly opts \<Longrightarrow> v \<noteq> JUndefined \<Longrightarrow>
   validate opts L (Schema TNumber req [] False [Integer, Positive] [] [] None) path v = []
     \<longleftrightarrow> positive_integer L v"
  by (cases v) (auto simp: Let_def run_test_def positive_integer_def split: option.splits)

lemma validate_optional_Joi_id:
  "\<not> abortEarly opts \<Longrightarrow>
   validate opts L (optional Joi_id) path v = [] \<longleftrightarrow> absent_or (positive_integer L) v"
  using validate_positive_integer [of opts v L False path]
  by (cases "v = JUndefined") (simp_all add: joi_defs absent_or_def del: validate.simps, simp)

lemma validate_optional_positive_integer:
  "\<not> abortEarly opts \<Longrightarrow>
   validate opts L (optional (rule Positive (rule Integer Joi_number))) path v = []
     \<longleftrightarrow> absent_or (positive_integer L) v"
  using validate_positive_integer [of opts v L False path]
  by (cases "v = JUndefined") (simp_all add: joi_defs absent_or_def del: validate.simps, simp)

lemma validate_isExample:
  "\<not> abortEarly opts \<Longrightarrow>
   validate opts L (optional (valid [JNum 0, JNum 1] (rule Integer Joi_number))) path v = []
     \<longleftrightarrow> absent_or (\<lambda>v. as_number L v = Some 0 \<or> as_number L v = Some 1) v"
  by (cases v) (auto simp: joi_defs Let_def absent_or_def split: option.splits)

lemma validate_score:
  "\<not> abortEarly opts \<Longrightarrow>
   validate opts L (optional (rule (Max 100) (rule (Min 0) Joi_number))) path v = []
     \<longleftrightarrow> absent_or (number_between L 0 100) v"
  by (cases v) (auto simp: joi_defs Let_def absent_or_def run_test_def number_between_def split: option.splits)

lemma validate_valid_string:
  "v \<noteq> JUndefined \<Longrightarrow>
   validate opts L (valid [JStr a] Joi_string) path v = [] \<longleftrightarrow> v = JStr a"
  by (cases v) (auto simp: joi_defs Let_def)

lemma validate_resource:
  "validate opts L (alternatives_try [valid [JStr ''submission''] Joi_string,
                                      valid [JStr ''review''] Joi_string,
                                      valid [JStr ''reviewSummation''] Joi_string] Joi_alternatives) path v = []
     \<longleftrightarrow> absent_or (\<lambda>v. v = JStr ''submission'' \<or> v = JStr ''review'' \<or> v = JStr ''reviewSummation'') v"
proof (cases "v = JUndefined")
  case True
  then show ?thesis by (simp add: Joi_alternatives_def absent_or_def)
next
  case False
  have "alternatives_try [valid [JStr ''submission''] Joi_string, valid [JStr ''review''] Joi_string,
                          valid [JStr ''reviewSummation''] Joi_string] Joi_alternatives
        = Schema TAlternatives False [] False []
            [valid [JStr ''submission''] Joi_string, valid [JStr ''review''] Joi_string,
             valid [JStr ''reviewSummation''] Joi_string] [] None"
    by (simp add: Joi_alternatives_def)
  then show ?thesis
    using False validate_alternatives [OF False, of opts L False False "[]" _ "[]" None path]
      validate_valid_string [OF False, of opts L _ path]
    by (simp add: absent_or_def del: validate.simps)
qed

lemma validate_id_accepted:
  assumes "\<not> abortEarly opts"
  shows "validate opts L (required (alternatives_try [Joi_id, rule Guid Joi_string] Joi_alternatives)) path v = []
     \<longleftrightarrow> positive_integer L v \<or> guid_string L v"
  unfolding validate_id [OF assms]
  by (cases v) (auto simp: positive_integer_def split: option.splits)

lemma validate_required_string_accepted:
  "\<not> abortEarly opts \<Longrightarrow>
   validate opts L (required Joi_string) path v = [] \<longleftrightarrow> nonempty_string v"
  unfolding validate_required_string by (cases v) auto

lemma validate_required_date_accepted:
  "validate opts L (required Joi_date) path v = [] \<longleftrightarrow> date_value L v"
  unfolding validate_required_date by (cases v) auto

lemma validate_object_iff:
  assumes "stype sch = TObject" "valids sch = []" "v \<noteq> JUndefined"
  shows "validate handle_options L sch path v = [] \<longleftrightarrow>
     (\<exists>kvs. to_object L v = Some kvs
        \<and> (\<forall>(k, c)\<in>set (children sch). validate handle_options L c (path @ [k]) (own kvs k) = []))"
proof (cases "to_object L v")
  case None
  then show ?thesis using assms by (cases sch) (simp add: Let_def)
next
  case (Some kvs)
  then show ?thesis
    by (auto simp: validate_object_handle [OF assms Some])
qed

lemma children_metadata:
  "children (optional (Joi_object_keys [(''testType'', required Joi_string)]))
   = [(''testType'', required Joi_string)]"
  "stype (optional (Joi_object_keys [(''testType'', required Joi_string)])) = TObject"
  "valids (optional (Joi_object_keys [(''testType'', required Joi_string)])) = []"
  "\<not> presence_required (optional (Joi_object_keys [(''testType'', required Joi_string)]))"
  by (simp_all add: Joi_object_keys_def)

lemma validate_optional_absent:
  "\<not> presence_required sch \<Longrightarrow> validate opts L sch path JUndefined = []"
  by (cases sch) simp

lemma validate_metadata:
  "validate handle_options L (optional (Joi_object_keys [(''testType'', required Joi_string)])) path v = []
     \<longleftrightarrow> absent_or (metadata_accepted L) v"
proof (cases "v = JUndefined")
  case True
  then show ?thesis
    using validate_optional_absent [OF children_metadata(4)] by (simp add: absent_or_def)
next
  case False
  have na: "\<not> abortEarly handle_options" by (simp add: handle_options_def)
  show ?thesis
    unfolding validate_object_iff [OF children_metadata(2,3) False] children_metadata(1)
    using False
    by (auto simp: absent_or_def metadata_accepted_def validate_required_string_accepted [OF na]
             split: option.splits)
qed

lemma children_payloadSchema:
  "children payloadSchema =
    [(''id'', required (alternatives_try [Joi_id, rule Guid Joi_string] Joi_alternatives)),
     (''resource'', alternatives_try [valid [JStr ''submission''] Joi_string,
                                      valid [JStr ''review''] Joi_string,
                                      valid [JStr ''reviewSummation''] Joi_string] Joi_alternatives),
     (''challengeId'', optional Joi_id),
     (''memberId'', optional Joi_id),
     (''submissionPhaseId'', optional Joi_id),
     (''url'', optional (rule Uri Joi_string)),
     (''type'', optional Joi_string),
     (''legacySubmissionId'', optional (rule Positive (rule Integer Joi_number))),
     (''isExample'', optional (valid [JNum 0, JNum 1] (rule Integer Joi_number))),
     (''typeId'', optional Joi_string),
     (''score'', optional (rule (Max 100) (rule (Min 0) Joi_number))),
     (''metadata'', optional (Joi_object_keys [(''testType'', required Joi_string)]))]"
  by (simp add: payloadSchema_def Joi_object_keys_def)

lemma children_eventSchema:
  "children eventSchema =
    [(''topic'', required Joi_string), (''originator'', required Joi_string),
     (''timestamp'', required Joi_date), (''mime-type'', required Joi_string),
     (''payload'', payloadSchema)]"
  by (simp add: eventSchema_def Joi_object_keys_def)

lemma validate_payloadSchema:
  "validate handle_options L payloadSchema path v = [] \<longleftrightarrow>
     (\<exists>p. to_object L v = Some p \<and> payload_accepted L p)"
proof (cases "v = JUndefined")
  case True
  have "payloadSchema = Schema TObject True [] False [] [] (children payloadSchema) (Some True)"
    by (simp add: payloadSchema_def Joi_object_keys_def)
  then have "validate handle_options L payloadSchema path JUndefined \<noteq> []"
    by (metis list.distinct(1) validate.simps(1))
  with True show ?thesis by simp
next
  case False
  have na: "\<not> abortEarly handle_options" by (simp add: handle_options_def)
  show ?thesis
    unfolding validate_object_iff [OF payloadSchema_object(1,2) False] children_payloadSchema
    by (simp add: payload_accepted_def validate_id_accepted [OF na] validate_resource
          validate_optional_Joi_id [OF na] validate_optional_uri [OF na] validate_optional_string [OF na]
          validate_optional_positive_integer [OF na] validate_isExample [OF na] validate_score [OF na]
          validate_metadata
          del: validate.simps)
qed

lemma Joi_validate_eventSchema:
  assumes "event \<noteq> JUndefined"
  shows "Joi_validate handle_options L eventSchema event = [] \<longleftrightarrow> event_accepted L event"
proof -
  have na: "\<not> abortEarly handle_options" by (simp add: handle_options_def)
  show ?thesis
    unfolding Joi_validate_def validate_object_iff [OF eventSchema_object assms] children_eventSchema
    by (auto simp: event_accepted_def validate_required_string_accepted [OF na]
          validate_required_date_accepted validate_payloadSchema
          simp del: validate.simps split: option.splits)
qed

subsection \<open>The path of an accepted event\<close>

lemma index_of_key_names:
  "index_of_key ''topic'' = None"
  "index_of_key ''originator'' = None"
  "index_of_key ''payload'' = None"
  "index_of_key ''resource'' = None"
  "index_of_key ''submissionId'' = None"
  "index_of_key ''typeId'' = None"
  "index_of_key ''challengeId'' = None"
  "index_of_key ''legacySubmissionId'' = None"
  by (simp_all add: index_of_key_def is_digit_def)

lemma handle_valid:
  "s \<noteq> [] \<Longrightarrow> JSON_parse L s = Some event \<Longrightarrow> truthy event \<Longrightarrow>
   Joi_validate handle_options L eventSchema event = [] \<Longrightarrow>
   handle cfg L E (string_value s) m2m t = handle_filter cfg E m2m event t"
  by (simp add: handle_def)

lemma handle_filter_String:
  "handle_filter cfg E m2m (JStr s) t = (Inr (), t @ [Log debug (Skipped_event_from_topic JUndefined)])"
  by (simp add: handle_filter_def prog_defs index_of_key_names)

lemma handle_branch_Obj:
  assumes "get_prop (own kvs ''payload'') ''resource'' = Inr r"
    and "get_prop (own kvs ''payload'') ''typeId'' = Inr ty"
  shows "handle_branch cfg E m2m (JObj kvs) t =
    (if r = JStr ''review'' then
       (if truthy ty \<and> array_includes (map trim (split CHR '','' (PAYLOAD_TYPES cfg))) ty
        then ((case E t (updateReviewScore (JObj kvs)) of Resolve v \<Rightarrow> Inr () | Reject e \<Rightarrow> Inl e),
              t @ [Call (updateReviewScore (JObj kvs))])
        else (Inr (), t @ [Log debug Skipped_Invalid_typeId]))
     else if r = JStr ''reviewSummation'' then
       (if own kvs ''topic'' = JStr (KAFKA_NEW_SUBMISSION_TOPIC cfg) then
          (case getSubmission E (lodash_get (JObj kvs) ''payload.submissionId'' [''payload'', ''submissionId'']) m2m t of
             (sub, t2) \<Rightarrow>
               (case get_prop sub ''legacySubmissionId'' of
                  Inl e \<Rightarrow> (Inl e, t2)
                | Inr l \<Rightarrow>
                    if \<not> truthy l then (Inl (Error ''legacySubmissionId not found''), t2)
                    else ((case E t2 (LegacySubmissionIdService_updateReviewScore l
                                   (lodash_get (JObj kvs) ''payload.aggregateScore'' [''payload'', ''aggregateScore''])
                                   ''finalScore'') of Resolve v \<Rightarrow> Inr () | Reject e \<Rightarrow> Inl e),
                          t2 @ [Call (LegacySubmissionIdService_updateReviewScore l
                                   (lodash_get (JObj kvs) ''payload.aggregateScore'' [''payload'', ''aggregateScore''])
                                   ''finalScore'')])))
        else (Inr (), t))
     else (Inr (), t))"
  using assms
  by (auto simp: handle_branch_def prog_defs Let_def split: reply.splits sum.splits prod.splits)

lemma handle_filter_Obj:
  assumes "own kvs ''topic'' = JStr tp" "own kvs ''originator'' = JStr og"
    and "get_prop (own kvs ''payload'') ''resource'' = Inr r"
    and "get_prop (own kvs ''payload'') ''submissionId'' = Inr sid"
  shows "handle_filter cfg E m2m (JObj kvs) t =
    (if tp \<noteq> KAFKA_NEW_SUBMISSION_TOPIC cfg \<and> tp \<noteq> KAFKA_UPDATE_SUBMISSION_TOPIC cfg
       then (Inr (), t @ [Log debug (Skipped_event_from_topic (JStr tp))])
     else if og \<noteq> KAFKA_NEW_SUBMISSION_ORIGINATOR cfg
       then (Inr (), t @ [Log debug (Skipped_event_from_originator (JStr og))])
     else if r = JStr ''submission''
       then (Inr (), t @ [Log debug (Skipped_event_from_resource r)])
     else
       (case getSubTrack E sid m2m t of
          (st, t1) \<Rightarrow>
            if to_string_throws st then (Inl TypeError, t1)
            else if \<not> (truthy st \<and> array_includes (map trim (split CHR '','' (CHALLENGE_SUBTRACK cfg))) st)
              then (Inr (), t1 @ [Log debug (Challenge_get_subTrack st),
                                  Log debug (Skipping_as_NOT_MM_found_in (map trim (split CHR '','' (CHALLENGE_SUBTRACK cfg))))])
            else handle_branch cfg E m2m (JObj kvs) (t1 @ [Log debug (Challenge_get_subTrack st)])))"
  using assms
  by (auto simp: handle_filter_def prog_defs Let_def split: prod.splits)

lemma payload_field_Inr:
  "payload_field event k = Inr r \<Longrightarrow> \<exists>kvs. event = JObj kvs \<and> get_prop (own kvs ''payload'') k = Inr r"
  by (cases event) (auto simp: payload_field_def index_of_key_names split: if_splits)

lemma array_includes_string:
  "array_includes xs v \<Longrightarrow> \<not> to_string_throws v"
  by (cases v) auto

lemma handle_reaches_branch:
  assumes "s \<noteq> []" "JSON_parse L s = Some event"
    and "Joi_validate handle_options L eventSchema event = []"
    and "get_prop event ''topic'' \<in> {Inr (JStr (KAFKA_NEW_SUBMISSION_TOPIC cfg)),
                                     Inr (JStr (KAFKA_UPDATE_SUBMISSION_TOPIC cfg))}"
    and "get_prop event ''originator'' = Inr (JStr (KAFKA_NEW_SUBMISSION_ORIGINATOR cfg))"
    and "payload_field event ''resource'' = Inr r" "r \<noteq> JStr ''submission''"
    and "payload_field event ''submissionId'' = Inr sid"
    and "getSubTrack E sid m2m t = (st, t1)"
    and "truthy st \<and> array_includes (map trim (split CHR '','' (CHALLENGE_SUBTRACK cfg))) st"
  shows "handle cfg L E (string_value s) m2m t
         = handle_branch cfg E m2m event (t1 @ [Log debug (Challenge_get_subTrack st)])"
proof -
  from payload_field_Inr [OF assms(6)] obtain kvs where
    e: "event = JObj kvs" and r: "get_prop (own kvs ''payload'') ''resource'' = Inr r"
    by blast
  from payload_field_Inr [OF assms(8)] e have
    sid: "get_prop (own kvs ''payload'') ''submissionId'' = Inr sid"
    by auto
  from assms(4) e obtain tp where tp: "own kvs ''topic'' = JStr tp"
    "tp = KAFKA_NEW_SUBMISSION_TOPIC cfg \<or> tp = KAFKA_UPDATE_SUBMISSION_TOPIC cfg"
    by auto
  from assms(5) e have og: "own kvs ''originator'' = JStr (KAFKA_NEW_SUBMISSION_ORIGINATOR cfg)"
    by simp
  have "truthy event" using e by simp
  from handle_valid [OF assms(1,2) this assms(3)]
  have "handle cfg L E (string_value s) m2m t = handle_filter cfg E m2m (JObj kvs) t"
    using e by simp
  also have "\<dots> = handle_branch cfg E m2m (JObj kvs) (t1 @ [Log debug (Challenge_get_subTrack st)])"
    using tp(2) assms(7,10) array_includes_string [of _ st]
    by (auto simp: handle_filter_Obj [OF tp(1) og r sid] assms(9))
  finally show ?thesis using e by simp
qed

subsection \<open>The fields of an accepted event\<close>

text \<open>
  Validation reads a key of an object from its own entries or from the entries of its own
  \<^verbatim>\<open>__proto__\<close> entry; the handler reads own entries only. The topic and the originator of
  an accepted event are strings wherever validation found them, or absent from the own
  entries; so reading them never faults.
\<close>

lemma map_of_filter_key:
  "map_of (filter (\<lambda>(k, v). P k) kvs) k = (if P k then map_of kvs k else None)"
  by (induction kvs) auto

lemma own_target_entries:
  "k \<noteq> ''__proto__'' \<Longrightarrow> map_of kvs k = Some v \<Longrightarrow> own (target_entries kvs) k = v"
  by (simp add: own_def target_entries_def map_of_filter_key)

lemma own_absent: "map_of kvs k = None \<Longrightarrow> own kvs k = JUndefined"
  by (simp add: own_def)

lemma own_present: "map_of kvs k = Some v \<Longrightarrow> own kvs k = v"
  by (simp add: own_def)

lemma nonempty_string_cases: "nonempty_string v \<Longrightarrow> \<exists>s. v = JStr s"
  by (cases v) auto

lemma accepted_own_fields:
  assumes "Joi_validate handle_options L eventSchema (JObj kvs) = []"
  shows "own kvs ''topic'' = JUndefined \<or> (\<exists>s. own kvs ''topic'' = JStr s)"
    and "own kvs ''originator'' = JUndefined \<or> (\<exists>s. own kvs ''originator'' = JStr s)"
proof -
  from assms have a: "event_accepted L (JObj kvs)"
    by (simp add: Joi_validate_eventSchema)
  then have t: "nonempty_string (own (target_entries kvs) ''topic'')"
    and o: "nonempty_string (own (target_entries kvs) ''originator'')"
    by (simp_all add: event_accepted_def)
  show "own kvs ''topic'' = JUndefined \<or> (\<exists>s. own kvs ''topic'' = JStr s)"
  proof (cases "map_of kvs ''topic''")
    case None
    then show ?thesis by (simp add: own_absent)
  next
    case (Some v)
    then have "own (target_entries kvs) ''topic'' = v" by (simp add: own_target_entries)
    with t Some show ?thesis by (auto simp: own_present dest: nonempty_string_cases)
  qed
  show "own kvs ''originator'' = JUndefined \<or> (\<exists>s. own kvs ''originator'' = JStr s)"
  proof (cases "map_of kvs ''originator''")
    case None
    then show ?thesis by (simp add: own_absent)
  next
    case (Some v)
    then have "own (target_entries kvs) ''originator'' = v" by (simp add: own_target_entries)
    with o Some show ?thesis by (auto simp: own_present dest: nonempty_string_cases)
  qed
qed

lemma accepted_event_cases:
  assumes "Joi_validate handle_options L eventSchema event = []" "truthy event"
  shows "(\<exists>s. event = JStr s) \<or> (\<exists>kvs. event = JObj kvs)"
proof -
  from assms(2) have "event \<noteq> JUndefined" by auto
  with assms(1) have "event_accepted L event" by (simp add: Joi_validate_eventSchema)
  then obtain kvs where "to_object L event = Some kvs"
    by (auto simp: event_accepted_def split: option.splits)
  then show ?thesis using to_object_cases by blast
qed

lemma handle_branch_mutation:
  assumes "mutations (snd (handle_branch cfg E m2m event t)) \<noteq> mutations t"
  shows "payload_field event ''resource'' \<in> {Inr (JStr ''review''), Inr (JStr ''reviewSummation'')}"
proof -
  have g: "mutations (snd (getSubmission E sid m2m t)) = mutations t" for sid
    by (rule getSubmission_mutations)
  show ?thesis
    using assms g
    by (auto simp: handle_branch_def prog_defs payload_field_def trace_simps Let_def
             split: sum.splits if_splits prod.splits reply.splits)
qed

lemma handle_filter_mutation:
  assumes "mutations (snd (handle_filter cfg E m2m event t)) \<noteq> mutations t"
  shows "\<exists>submissionId.
           payload_field event ''submissionId'' = Inr submissionId
         \<and> array_includes (map trim (split CHR '','' (CHALLENGE_SUBTRACK cfg)))
              (fst (getSubTrack E submissionId m2m t))
         \<and> payload_field event ''resource'' \<in> {Inr (JStr ''review''), Inr (JStr ''reviewSummation'')}"
proof -
  have g: "mutations (snd (getSubTrack E sid m2m t)) = mutations t" for sid
    by (rule getSubTrack_mutations)
  have b: "mutations (snd (handle_branch cfg E m2m event t')) \<noteq> mutations t' \<Longrightarrow>
           payload_field event ''resource'' \<in> {Inr (JStr ''review''), Inr (JStr ''reviewSummation'')}" for t'
    by (rule handle_branch_mutation)
  show ?thesis
  proof (cases "payload_field event ''submissionId''")
    case (Inl e)
    with assms show ?thesis
      by (auto simp: handle_filter_def prog_defs payload_field_def trace_simps
               split: sum.splits if_splits)
  next
    case (Inr sid)
    obtain st t1 where s: "getSubTrack E sid m2m t = (st, t1)"
      by (cases "getSubTrack E sid m2m t")
    have m1: "mutations t1 = mutations t" using g [of sid] s by simp
    from Inr obtain payload where p: "get_prop event ''payload'' = Inr payload"
      "get_prop payload ''submissionId'' = Inr sid"
      by (auto simp: payload_field_def split: sum.splits)
    have "array_includes (map trim (split CHR '','' (CHALLENGE_SUBTRACK cfg))) st
        \<and> mutations (snd (handle_branch cfg E m2m event (t1 @ [Log debug (Challenge_get_subTrack st)])))
            \<noteq> mutations (t1 @ [Log debug (Challenge_get_subTrack st)])"
      using assms m1 p s
      by (auto simp: handle_filter_def prog_defs trace_simps Let_def split: sum.splits if_splits)
    with b Inr s show ?thesis by auto
  qed
qed

subsection \<open>Relevance\<close>

text \<open>
  C1. Whatever the message, the configuration and the collaborators: if \<^verbatim>\<open>handle\<close> calls
  an update of the legacy store (the review score or the final score), then the message
  parsed to an event, the subtrack that \<^verbatim>\<open>getSubTrack\<close> resolved for its
  \<^verbatim>\<open>payload.submissionId\<close> is in the list of \<^verbatim>\<open>CHALLENGE_SUBTRACK\<close> (split at commas,
  trimmed), and its \<^verbatim>\<open>payload.resource\<close> is \<^verbatim>\<open>review\<close> or \<^verbatim>\<open>reviewSummation\<close>.
\<close>

theorem mutation_only_for_relevant_events:
  assumes "mutations (snd (handle cfg L E val m2m t)) \<noteq> mutations t"
  shows "\<exists>s event submissionId.
           val = string_value s \<and> JSON_parse L s = Some event
         \<and> payload_field event ''submissionId'' = Inr submissionId
         \<and> array_includes (map trim (split CHR '','' (CHALLENGE_SUBTRACK cfg)))
              (fst (getSubTrack E submissionId m2m t))
         \<and> payload_field event ''resource'' \<in> {Inr (JStr ''review''), Inr (JStr ''reviewSummation'')}"
proof -
  from assms obtain s event where v: "val = string_value s" "s \<noteq> []" "JSON_parse L s = Some event"
      "truthy event" "Joi_validate handle_options L eventSchema event = []"
    by (cases val) (auto simp: handle_def logger_def trace_simps Let_def split: option.splits if_splits)
  then have h: "handle cfg L E val m2m t = handle_filter cfg E m2m event t"
    using handle_valid by blast
  from handle_filter_mutation [of cfg E m2m event t] assms h v(1,3)
  show ?thesis by auto
qed

theorem mutation_only_for_relevant_events_witness:
  "mutations (snd (handle cfg0 summation_library env0 (string_value summation_message) False [])) \<noteq> mutations []
   \<and> (\<exists>s event submissionId.
           string_value summation_message = string_value s \<and> JSON_parse summation_library s = Some event
         \<and> payload_field event ''submissionId'' = Inr submissionId
         \<and> array_includes (map trim (split CHR '','' (CHALLENGE_SUBTRACK cfg0)))
              (fst (getSubTrack env0 submissionId False []))
         \<and> payload_field event ''resource'' \<in> {Inr (JStr ''review''), Inr (JStr ''reviewSummation'')})"
proof -
  have h: "mutations (snd (handle cfg0 summation_library env0 (string_value summation_message) False []))
           \<noteq> mutations []"
    by code_simp
  show ?thesis
    by (rule conjI [OF h mutation_only_for_relevant_events [OF h]])
qed

text \<open>
  C7. A valid event whose topic is neither the new-submission topic nor the
  update-submission topic, or whose originator is not the configured one, or whose
  \<^verbatim>\<open>payload.resource\<close> is \<^verbatim>\<open>submission\<close>, is dropped: \<^verbatim>\<open>handle\<close> returns and has made
  no call, so the store is not touched and no enrichment request was sent.
\<close>

theorem irrelevant_event_is_dropped:
  assumes "JSON_parse L s = Some event"
    and "Joi_validate handle_options L eventSchema event = []"
    and "get_prop event ''topic'' \<notin> {Inr (JStr (KAFKA_NEW_SUBMISSION_TOPIC cfg)),
                                       Inr (JStr (KAFKA_UPDATE_SUBMISSION_TOPIC cfg))}
       \<or> get_prop event ''originator'' \<noteq> Inr (JStr (KAFKA_NEW_SUBMISSION_ORIGINATOR cfg))
       \<or> payload_field event ''resource'' = Inr (JStr ''submission'')"
  shows "fst (handle cfg L E (string_value s) m2m t) = Inr ()
       \<and> calls (snd (handle cfg L E (string_value s) m2m t)) = calls t
       \<and> mutations (snd (handle cfg L E (string_value s) m2m t)) = mutations t
       \<and> enrichments (snd (handle cfg L E (string_value s) m2m t)) = enrichments t"
proof -
  have "fst (handle cfg L E (string_value s) m2m t) = Inr ()
       \<and> calls (snd (handle cfg L E (string_value s) m2m t)) = calls t"
  proof (cases "s \<noteq> [] \<and> truthy event")
    case False
    then show ?thesis using assms(1) by (auto simp: handle_def logger_def trace_simps)
  next
    case True
    then have h: "handle cfg L E (string_value s) m2m t = handle_filter cfg E m2m event t"
      using handle_valid assms(1,2) by blast
    from accepted_event_cases [OF assms(2)] True
    consider (str) s' where "event = JStr s'" | (obj) kvs where "event = JObj kvs"
      by blast
    then show ?thesis
    proof cases
      case str
      then show ?thesis by (simp add: h handle_filter_String trace_simps)
    next
      case obj
      from accepted_own_fields [OF assms(2) [unfolded obj]]
      have nt: "\<not> to_string_throws (own kvs ''topic'')" "\<not> to_string_throws (own kvs ''originator'')"
        by auto
      show ?thesis
      proof (cases "own kvs ''topic'' \<noteq> JStr (KAFKA_NEW_SUBMISSION_TOPIC cfg)
                    \<and> own kvs ''topic'' \<noteq> JStr (KAFKA_UPDATE_SUBMISSION_TOPIC cfg)")
        case True
        with nt show ?thesis
          by (simp add: h obj handle_filter_def prog_defs trace_simps)
      next
        case topic: False
        show ?thesis
        proof (cases "own kvs ''originator'' \<noteq> JStr (KAFKA_NEW_SUBMISSION_ORIGINATOR cfg)")
          case True
          with nt topic show ?thesis
            by (simp add: h obj handle_filter_def prog_defs trace_simps)
        next
          case False
          with topic assms(3) obj
          have "payload_field (JObj kvs) ''resource'' = Inr (JStr ''submission'')"
            by auto
          then have "get_prop (own kvs ''payload'') ''resource'' = Inr (JStr ''submission'')"
            by (simp add: payload_field_def)
          with topic False show ?thesis
            by (simp add: h obj handle_filter_def prog_defs trace_simps)
        qed
      qed
    qed
  qed
  then show ?thesis by (simp add: mutations_def enrichments_def)
qed

theorem irrelevant_event_is_dropped_witness:
  "get_prop foreign_topic_event ''topic'' \<notin> {Inr (JStr (KAFKA_NEW_SUBMISSION_TOPIC cfg0)),
                                                 Inr (JStr (KAFKA_UPDATE_SUBMISSION_TOPIC cfg0))}
   \<and> fst (handle cfg0 foreign_topic_library env0 (string_value foreign_topic_message) False []) = Inr ()
   \<and> calls (snd (handle cfg0 foreign_topic_library env0 (string_value foreign_topic_message) False [])) = []"
proof -
  have p: "JSON_parse foreign_topic_library foreign_topic_message = Some foreign_topic_event"
    by (simp add: foreign_topic_library_def library_parsing_def)
  have v: "Joi_validate handle_options foreign_topic_library eventSchema foreign_topic_event = []"
    by code_simp
  have c: "get_prop foreign_topic_event ''topic'' \<notin> {Inr (JStr (KAFKA_NEW_SUBMISSION_TOPIC cfg0)),
                                                 Inr (JStr (KAFKA_UPDATE_SUBMISSION_TOPIC cfg0))}"
    by (simp add: foreign_topic_event_def event_of_def own_def cfg0_def)
  from irrelevant_event_is_dropped [OF p v disjI1, OF c, of env0 False "[]"] c
  show ?thesis by (simp add: trace_simps)
qed

subsection \<open>The two branches\<close>


text \<open>
  C6. A valid event on one of the two topics, from the configured originator, with
  \<^verbatim>\<open>payload.resource\<close> equal to \<^verbatim>\<open>review\<close> and a resolved subtrack in the allow-set: if
  \<^verbatim>\<open>payload.typeId\<close> is present and in the list of \<^verbatim>\<open>PAYLOAD_TYPES\<close> (split at commas,
  trimmed), \<^verbatim>\<open>handle\<close> makes exactly one update call, the review-score update with the
  event; otherwise it logs that the typeId is invalid, returns, and makes no update call.
\<close>

theorem review_event_dispatch:
  assumes "s \<noteq> []" "JSON_parse L s = Some event"
    and "Joi_validate handle_options L eventSchema event = []"
    and "get_prop event ''topic'' \<in> {Inr (JStr (KAFKA_NEW_SUBMISSION_TOPIC cfg)),
                                     Inr (JStr (KAFKA_UPDATE_SUBMISSION_TOPIC cfg))}"
    and "get_prop event ''originator'' = Inr (JStr (KAFKA_NEW_SUBMISSION_ORIGINATOR cfg))"
    and "payload_field event ''resource'' = Inr (JStr ''review'')"
    and "payload_field event ''submissionId'' = Inr submissionId"
    and "getSubTrack E submissionId m2m t = (subTrack, t1)"
    and "truthy subTrack \<and> array_includes (map trim (split CHR '','' (CHALLENGE_SUBTRACK cfg))) subTrack"
    and "payload_field event ''typeId'' = Inr typeId"
  shows "(truthy typeId \<and> array_includes (map trim (split CHR '','' (PAYLOAD_TYPES cfg))) typeId \<longrightarrow>
            snd (handle cfg L E (string_value s) m2m t)
              = t1 @ [Log debug (Challenge_get_subTrack subTrack), Call (updateReviewScore event)]
          \<and> mutations (snd (handle cfg L E (string_value s) m2m t))
              = mutations t @ [updateReviewScore event])
       \<and> (\<not> (truthy typeId \<and> array_includes (map trim (split CHR '','' (PAYLOAD_TYPES cfg))) typeId) \<longrightarrow>
            handle cfg L E (string_value s) m2m t
              = (Inr (), t1 @ [Log debug (Challenge_get_subTrack subTrack), Log debug Skipped_Invalid_typeId])
          \<and> mutations (snd (handle cfg L E (string_value s) m2m t)) = mutations t)"
proof -
  have h: "handle cfg L E (string_value s) m2m t
           = handle_branch cfg E m2m event (t1 @ [Log debug (Challenge_get_subTrack subTrack)])"
    using handle_reaches_branch [OF assms(1-6) _ assms(7-9)] by simp
  from payload_field_Inr [OF assms(6)] obtain kvs where
    e: "event = JObj kvs" and r: "get_prop (own kvs ''payload'') ''resource'' = Inr (JStr ''review'')"
    by blast
  from payload_field_Inr [OF assms(10)] e have
    ty: "get_prop (own kvs ''payload'') ''typeId'' = Inr typeId"
    by auto
  have m1: "mutations t1 = mutations t"
    using getSubTrack_mutations [of E submissionId m2m t] assms(8) by simp
  show ?thesis
    using m1 by (simp add: h e handle_branch_Obj [OF r ty] trace_simps)
qed

theorem review_event_dispatch_witness:
  "truthy (JStr ''type-a'') \<and> array_includes (map trim (split CHR '','' (PAYLOAD_TYPES cfg0))) (JStr ''type-a'')
   \<and> mutations (snd (handle cfg0 review_library env0 (string_value review_message) False []))
       = [updateReviewScore (review_event ''type-a'')]"
proof -
  have 1: "review_message \<noteq> []"
    by (simp add: review_message_def)
  have 2: "JSON_parse review_library review_message = Some (review_event ''type-a'')"
    by (simp add: review_library_def library_parsing_def)
  have 3: "Joi_validate handle_options review_library eventSchema (review_event ''type-a'') = []"
    by code_simp
  have 4: "get_prop (review_event ''type-a'') ''topic'' \<in> {Inr (JStr (KAFKA_NEW_SUBMISSION_TOPIC cfg0)),
                                     Inr (JStr (KAFKA_UPDATE_SUBMISSION_TOPIC cfg0))}"
    by (simp add: review_event_def event_of_def own_def cfg0_def)
  have 5: "get_prop (review_event ''type-a'') ''originator'' = Inr (JStr (KAFKA_NEW_SUBMISSION_ORIGINATOR cfg0))"
    by (simp add: review_event_def event_of_def own_def cfg0_def)
  have 6: "payload_field (review_event ''type-a'') ''resource'' = Inr (JStr ''review'')"
    by (simp add: payload_field_def review_event_def event_of_def own_def)
  have 7: "payload_field (review_event ''type-a'') ''submissionId'' = Inr (JNum 42)"
    by (simp add: payload_field_def review_event_def event_of_def own_def)
  have 8: "getSubTrack env0 (JNum 42) False [] =
             (JStr ''DEVELOP_MARATHON_MATCH'',
              [Log info (Fetching_submission_for (JNum 42)),
               Call (Axios_get_submissions (JNum 42) None),
               Log info (Fetched_submission_for (JNum 42) submission_record),
               Log info (Fetching_challenge_details_for (JNum 30000)),
               Call (Axios_get_challenge (JNum 30000))])"
    by code_simp
  have 9: "truthy (JStr ''DEVELOP_MARATHON_MATCH'')
           \<and> array_includes (map trim (split CHR '','' (CHALLENGE_SUBTRACK cfg0))) (JStr ''DEVELOP_MARATHON_MATCH'')"
    by code_simp
  have 10: "payload_field (review_event ''type-a'') ''typeId'' = Inr (JStr ''type-a'')"
    by (simp add: payload_field_def review_event_def event_of_def own_def)
  have a: "truthy (JStr ''type-a'') \<and> array_includes (map trim (split CHR '','' (PAYLOAD_TYPES cfg0))) (JStr ''type-a'')"
    by code_simp
  from review_event_dispatch [OF 1 2 3 4 5 6 7 8 9 10] a
  show ?thesis by (simp add: trace_simps)
qed





subsection \<open>Enrichment failures\<close>

text \<open>
  A failure of an enrichment call is a request of the run that the environment rejected:
  \<open>rejections E t new\<close> lists them for the effects \<open>new\<close> added to the trace \<open>t\<close>. Both
  fetch functions catch every fault: after a failure \<^verbatim>\<open>getSubmission\<close> and \<^verbatim>\<open>getSubTrack\<close>
  return \<^verbatim>\<open>undefined\<close>.
\<close>

lemma rejections_append:
  "rejections E h (xs @ ys) = rejections E h xs @ rejections E (h @ xs) ys"
proof (induction xs arbitrary: h)
  case Nil
  then show ?case by simp
next
  case (Cons x xs)
  then show ?case by (cases x) simp_all
qed

lemma getSubmission_run:
  "\<exists>new. snd (getSubmission E submissionId m2m t) = t @ new
     \<and> (rejections E t new \<noteq> [] \<longrightarrow> fst (getSubmission E submissionId m2m t) = JUndefined)"
  by (cases m2m) (auto simp: getSubmission_def prog_defs split: reply.splits)

lemma getSubTrack_run:
  "\<exists>new. snd (getSubTrack E submissionId m2m t) = t @ new
     \<and> (rejections E t new \<noteq> [] \<longrightarrow> fst (getSubTrack E submissionId m2m t) = JUndefined)"
proof -
  obtain sub t1 where s: "getSubmission E submissionId m2m t = (sub, t1)"
    by (cases "getSubmission E submissionId m2m t")
  from getSubmission_run [of E submissionId m2m t] s obtain new1 where
    n: "t1 = t @ new1" "rejections E t new1 \<noteq> [] \<longrightarrow> sub = JUndefined"
    by auto
  show ?thesis
    using n
    by (auto simp: getSubTrack_def prog_defs s rejections_append split: reply.splits sum.splits)
qed

lemma get_prop_Inr_total:
  "get_prop v k = Inr x \<Longrightarrow> \<exists>r. get_prop v k' = Inr r"
  by (cases v) auto

lemma unresolved_subtrack_is_dropped:
  assumes "s \<noteq> []" "JSON_parse L s = Some event"
    and "Joi_validate handle_options L eventSchema event = []"
    and "payload_field event ''submissionId'' = Inr submissionId"
    and "\<not> truthy (fst (getSubTrack E submissionId m2m t))"
  shows "fst (handle cfg L E (string_value s) m2m t) = Inr ()
       \<and> mutations (snd (handle cfg L E (string_value s) m2m t)) = mutations t"
proof -
  from payload_field_Inr [OF assms(4)] obtain kvs where
    e: "event = JObj kvs" and sid: "get_prop (own kvs ''payload'') ''submissionId'' = Inr submissionId"
    by blast
  then have tr: "truthy event" by simp
  from accepted_own_fields [OF assms(3) [unfolded e]]
  have nt: "\<not> to_string_throws (own kvs ''topic'')" "\<not> to_string_throws (own kvs ''originator'')"
    by auto
  from get_prop_Inr_total [OF sid] obtain r where r: "get_prop (own kvs ''payload'') ''resource'' = Inr r"
    by blast
  obtain st t1 where g: "getSubTrack E submissionId m2m t = (st, t1)"
    by (cases "getSubTrack E submissionId m2m t")
  with assms(5) have st: "\<not> truthy st" by simp
  then have ns: "\<not> to_string_throws st" by (cases st) auto
  have m1: "mutations t1 = mutations t"
    using getSubTrack_mutations [of E submissionId m2m t] g by simp
  have h: "handle cfg L E (string_value s) m2m t = handle_filter cfg E m2m (JObj kvs) t"
    using handle_valid [OF assms(1,2) tr assms(3)] e by simp
  show ?thesis
    using nt r sid m1 st ns
    by (auto simp: h handle_filter_def prog_defs g trace_simps Let_def)
qed

text \<open>
  C4, as the specification states it, fails on the summation event when the first fetch of
  the submission and the fetch of the challenge succeed and the second fetch of the
  submission is rejected: the failure is logged, \<^verbatim>\<open>getSubmission\<close> returns \<^verbatim>\<open>undefined\<close>,
  and \<^verbatim>\<open>handle\<close> faults with a TypeError where it reads the \<^verbatim>\<open>legacySubmissionId\<close> of the
  record.
\<close>

theorem second_submission_fetch_failure_counterexample:
  "payload_field summation_event ''submissionId'' = Inr (JNum 42)
   \<and> handle cfg0 summation_library env_second_fetch_fails (string_value summation_message) False []
     = (Inl TypeError,
        [Log info (Fetching_submission_for (JNum 42)),
         Call (Axios_get_submissions (JNum 42) None),
         Log info (Fetched_submission_for (JNum 42) submission_record),
         Log info (Fetching_challenge_details_for (JNum 30000)),
         Call (Axios_get_challenge (JNum 30000)),
         Log debug (Challenge_get_subTrack (JStr ''DEVELOP_MARATHON_MATCH'')),
         Log info (Fetching_submission_for (JNum 42)),
         Call (Axios_get_submissions (JNum 42) None),
         Log error (Submission_API_Error RequestError)])"
  by code_simp

text \<open>
  C4, amended. For a valid event with a payload: a failure of an enrichment call while the
  subtrack is resolved (the token, the submission or the challenge request) leaves the
  subtrack \<^verbatim>\<open>undefined\<close>, and whenever the subtrack is not resolved \<^verbatim>\<open>handle\<close> returns
  without a fault and without an update call. The second fetch of the submission, in the
  reviewSummation branch on the new-submission topic, is the exception: when a request of
  it fails, there is no record, \<^verbatim>\<open>handle\<close> faults with a TypeError, and no update call is
  made.
\<close>

theorem enrichment_failure_is_fatal_only_at_the_second_fetch:
  assumes "s \<noteq> []" "JSON_parse L s = Some event"
    and "Joi_validate handle_options L eventSchema event = []"
    and "payload_field event ''submissionId'' = Inr submissionId"
    and "getSubTrack E submissionId m2m t = (subTrack, t1)"
  shows "(rejections E t (drop (length t) t1) \<noteq> [] \<longrightarrow> subTrack = JUndefined)
       \<and> (\<not> truthy subTrack \<longrightarrow>
            fst (handle cfg L E (string_value s) m2m t) = Inr ()
          \<and> mutations (snd (handle cfg L E (string_value s) m2m t)) = mutations t)
       \<and> (get_prop event ''topic'' = Inr (JStr (KAFKA_NEW_SUBMISSION_TOPIC cfg))
          \<and> get_prop event ''originator'' = Inr (JStr (KAFKA_NEW_SUBMISSION_ORIGINATOR cfg))
          \<and> payload_field event ''resource'' = Inr (JStr ''reviewSummation'')
          \<and> truthy subTrack
          \<and> array_includes (map trim (split CHR '','' (CHALLENGE_SUBTRACK cfg))) subTrack
          \<and> getSubmission E (lodash_get event ''payload.submissionId'' [''payload'', ''submissionId'']) m2m
               (t1 @ [Log debug (Challenge_get_subTrack subTrack)]) = (sub, t2)
          \<and> rejections E (t1 @ [Log debug (Challenge_get_subTrack subTrack)])
               (drop (length (t1 @ [Log debug (Challenge_get_subTrack subTrack)])) t2) \<noteq> [] \<longrightarrow>
            sub = JUndefined
          \<and> handle cfg L E (string_value s) m2m t = (Inl TypeError, t2)
          \<and> mutations t2 = mutations t)"
proof (intro conjI impI)
  assume rj: "rejections E t (drop (length t) t1) \<noteq> []"
  from getSubTrack_run [of E submissionId m2m t] assms(5) obtain new where
    n: "t1 = t @ new" "rejections E t new \<noteq> [] \<longrightarrow> subTrack = JUndefined"
    by auto
  with rj show "subTrack = JUndefined" by simp
next
  assume "\<not> truthy subTrack"
  then have u: "\<not> truthy (fst (getSubTrack E submissionId m2m t))"
    using assms(5) by simp
  from unresolved_subtrack_is_dropped [OF assms(1-4) u, of cfg]
  show "fst (handle cfg L E (string_value s) m2m t) = Inr ()"
    and "mutations (snd (handle cfg L E (string_value s) m2m t)) = mutations t"
    by simp_all
next
  let ?t1 = "t1 @ [Log debug (Challenge_get_subTrack subTrack)]"
  let ?sid = "lodash_get event ''payload.submissionId'' [''payload'', ''submissionId'']"
  assume a: "get_prop event ''topic'' = Inr (JStr (KAFKA_NEW_SUBMISSION_TOPIC cfg))
          \<and> get_prop event ''originator'' = Inr (JStr (KAFKA_NEW_SUBMISSION_ORIGINATOR cfg))
          \<and> payload_field event ''resource'' = Inr (JStr ''reviewSummation'')
          \<and> truthy subTrack
          \<and> array_includes (map trim (split CHR '','' (CHALLENGE_SUBTRACK cfg))) subTrack
          \<and> getSubmission E ?sid m2m ?t1 = (sub, t2)
          \<and> rejections E ?t1 (drop (length ?t1) t2) \<noteq> []"
  from getSubmission_run [of E ?sid m2m ?t1] a obtain new where
    n: "t2 = ?t1 @ new" "rejections E ?t1 new \<noteq> [] \<longrightarrow> sub = JUndefined"
    by auto
  with a have sub: "sub = JUndefined" by simp
  have h: "handle cfg L E (string_value s) m2m t = handle_branch cfg E m2m event ?t1"
    using handle_reaches_branch [OF assms(1-3) _ _ _ _ assms(4,5), of cfg "JStr ''reviewSummation''"] a
    by simp
  from a payload_field_Inr [of event "''resource''" "JStr ''reviewSummation''"] obtain kvs where
    e: "event = JObj kvs" and r: "get_prop (own kvs ''payload'') ''resource'' = Inr (JStr ''reviewSummation'')"
    by blast
  from get_prop_Inr_total [OF r] obtain ty where
    ty: "get_prop (own kvs ''payload'') ''typeId'' = Inr ty"
    by blast
  have m1: "mutations t1 = mutations t"
    using getSubTrack_mutations [of E submissionId m2m t] assms(5) by simp
  have m2: "mutations t2 = mutations t"
    using getSubmission_mutations [of E ?sid m2m ?t1] a m1 by (simp add: trace_simps)
  have g: "getSubmission E (lodash_get (JObj kvs) ''payload.submissionId'' [''payload'', ''submissionId'']) m2m ?t1
           = (JUndefined, t2)"
    using a e sub by simp
  have tp: "own kvs ''topic'' = JStr (KAFKA_NEW_SUBMISSION_TOPIC cfg)"
    using a e by simp
  show "sub = JUndefined" by (rule sub)
  show "handle cfg L E (string_value s) m2m t = (Inl TypeError, t2)"
    by (simp add: h e handle_branch_Obj [OF r ty] tp g)
  show "mutations t2 = mutations t" by (rule m2)
qed

theorem enrichment_failure_is_fatal_only_at_the_second_fetch_witness:
  "rejections env_unreachable [] [Log info (Fetching_submission_for (JNum 42)),
       Call (Axios_get_submissions (JNum 42) None),
       Log error (Submission_API_Error RequestError),
       Log error (Challenge_Details_API_Error TypeError)] \<noteq> []
   \<and> fst (handle cfg0 summation_library env_unreachable (string_value summation_message) False []) = Inr ()
   \<and> mutations (snd (handle cfg0 summation_library env_unreachable (string_value summation_message) False [])) = []"
proof -
  have 1: "summation_message \<noteq> []"
    by (simp add: summation_message_def)
  have 2: "JSON_parse summation_library summation_message = Some summation_event"
    by (simp add: summation_library_def library_parsing_def)
  have 3: "Joi_validate handle_options summation_library eventSchema summation_event = []"
    by code_simp
  have 4: "payload_field summation_event ''submissionId'' = Inr (JNum 42)"
    by (simp add: payload_field_def summation_event_def event_of_def own_def)
  have 5: "getSubTrack env_unreachable (JNum 42) False [] =
             (JUndefined,
              [Log info (Fetching_submission_for (JNum 42)),
               Call (Axios_get_submissions (JNum 42) None),
               Log error (Submission_API_Error RequestError),
               Log error (Challenge_Details_API_Error TypeError)])"
    by code_simp
  have r: "rejections env_unreachable [] [Log info (Fetching_submission_for (JNum 42)),
       Call (Axios_get_submissions (JNum 42) None),
       Log error (Submission_API_Error RequestError),
       Log error (Challenge_Details_API_Error TypeError)] \<noteq> []"
    by code_simp
  from enrichment_failure_is_fatal_only_at_the_second_fetch [OF 1 2 3 4 5, of cfg0] r
  show ?thesis by (simp add: trace_simps)
qed

subsection \<open>Validation\<close>

text \<open>
  Joi validates a copy of an object, made by assigning each own key to a fresh object;
  assigning the key \<^verbatim>\<open>__proto__\<close> sets the prototype of the copy. So the payload whose
  \<^verbatim>\<open>id\<close> is only inside its \<^verbatim>\<open>__proto__\<close> entry is accepted, and the one with a score of
  200 there is rejected.
\<close>

lemma joi_reads_the_keys_of_proto:
  "Joi_validate handle_options summation_library eventSchema inherited_id_event = []
   \<and> Joi_validate handle_options summation_library eventSchema inherited_score_event
       = [Detail [''payload'', ''score''] (number_max 100)]"
  by code_simp



















text \<open>
  C9. A parsed event that fails validation: validation has not stopped at the first error.
  The details are the errors of every field of the schema, one after the other, and inside
  the payload the errors of every payload field; \<^verbatim>\<open>handle\<close> joins the messages of all the
  details with a comma into one log line, returns, and does nothing else.
\<close>

theorem invalid_event_reports_every_error:
  assumes "s \<noteq> []" "JSON_parse L s = Some event" "truthy event"
    and "Joi_validate handle_options L eventSchema event = details" "details \<noteq> []"
  shows "handle cfg L E (string_value s) m2m t
           = (Inr (), t @ [Log debug (Skipped_invalid_event (join '', '' (map (message L) details)))])
       \<and> (\<forall>kvs. to_object L event = Some kvs \<longrightarrow>
            details = concat (map (\<lambda>(k, c). validate handle_options L c [k] (own kvs k))
                                  (children eventSchema)))
       \<and> (\<forall>kvs p. to_object L event = Some kvs \<and> to_object L (own kvs ''payload'') = Some p \<longrightarrow>
            validate handle_options L payloadSchema [''payload''] (own kvs ''payload'')
              = concat (map (\<lambda>(k, c). validate handle_options L c [''payload'', k] (own p k))
                            (children payloadSchema)))"
proof (intro conjI allI impI)
  show "handle cfg L E (string_value s) m2m t
          = (Inr (), t @ [Log debug (Skipped_invalid_event (join '', '' (map (message L) details)))])"
    using assms by (simp add: handle_def logger_def)
next
  fix kvs assume "to_object L event = Some kvs"
  from validate_object_handle [OF eventSchema_object to_object_not_undefined [OF this] this, of "[]"]
  show "details = concat (map (\<lambda>(k, c). validate handle_options L c [k] (own kvs k)) (children eventSchema))"
    using assms(4) by (simp add: Joi_validate_def)
next
  fix kvs p assume "to_object L event = Some kvs \<and> to_object L (own kvs ''payload'') = Some p"
  then have p: "to_object L (own kvs ''payload'') = Some p" by simp
  from validate_object_handle [OF payloadSchema_object(1,2) to_object_not_undefined [OF p] p, of "[''payload'']"]
  show "validate handle_options L payloadSchema [''payload''] (own kvs ''payload'')
              = concat (map (\<lambda>(k, c). validate handle_options L c [''payload'', k] (own p k))
                            (children payloadSchema))"
    by simp
qed

theorem invalid_event_reports_every_error_witness:
  "Joi_validate handle_options four_errors_library eventSchema four_errors_event
     = [Detail [''topic''] string_base, Detail [''originator''] any_required,
        Detail [''payload'', ''id''] any_required, Detail [''payload'', ''score''] (number_max 100)]
   \<and> handle cfg0 four_errors_library env0 (string_value four_errors_message) False []
       = (Inr (), [Log debug (Skipped_invalid_event
            (dq @ ''topic'' @ dq @ '' must be a string, '' @
             dq @ ''originator'' @ dq @ '' is required, '' @
             dq @ ''id'' @ dq @ '' is required, '' @
             dq @ ''score'' @ dq @ '' must be less than or equal to 100''))])"
proof -
  have 1: "four_errors_message \<noteq> []"
    by (simp add: four_errors_message_def)
  have 2: "JSON_parse four_errors_library four_errors_message = Some four_errors_event"
    by (simp add: four_errors_library_def library_parsing_def)
  have 3: "truthy four_errors_event"
    by (simp add: four_errors_event_def)
  have 4: "Joi_validate handle_options four_errors_library eventSchema four_errors_event
     = [Detail [''topic''] string_base, Detail [''originator''] any_required,
        Detail [''payload'', ''id''] any_required, Detail [''payload'', ''score''] (number_max 100)]"
    by code_simp
  have 5: "[Detail [''topic''] string_base, Detail [''originator''] any_required,
            Detail [''payload'', ''id''] any_required, Detail [''payload'', ''score''] (number_max 100)] \<noteq> []"
    by simp
  have 6: "join '', '' (map (message four_errors_library)
             [Detail [''topic''] string_base, Detail [''originator''] any_required,
              Detail [''payload'', ''id''] any_required, Detail [''payload'', ''score''] (number_max 100)])
           = dq @ ''topic'' @ dq @ '' must be a string, '' @
             dq @ ''originator'' @ dq @ '' is required, '' @
             dq @ ''id'' @ dq @ '' is required, '' @
             dq @ ''score'' @ dq @ '' must be less than or equal to 100''"
    by code_simp
  from invalid_event_reports_every_error [OF 1 2 3 4 5, of cfg0 env0 False "[]"] 4 6
  show ?thesis by simp
qed

end
